theory Spec2Isabelle
  imports Main
begin

section \<open>Python values\<close>

text \<open>
  A Python \<open>str\<close> is a sequence of Unicode code points: \<open>len\<close> counts code points and
  slicing cuts between them. It is modelled as a list of code-point numbers, so that
  \<open>length\<close> and \<open>take\<close> are \<open>len\<close> and \<open>text[:n]\<close>. \<open>lit\<close> turns an ASCII literal of the
  source into its code points; the em dash of the source's f-strings is code point 8212.
\<close>

type_synonym pystr = "nat list"

type_synonym bytes = "nat list"

definition lit :: "string \<Rightarrow> pystr" where
  "lit s = map of_char s"

definition em_dash :: nat where
  "em_dash = 8212"

definition quoted :: "pystr \<Rightarrow> pystr" where
  "quoted s = [39] @ s @ [39]"

text \<open>\<open>str(n)\<close> of an integer: its decimal digits, with a minus sign when negative.\<close>

function str_nat :: "nat \<Rightarrow> pystr" where
  "str_nat n = (if n < 10 then [48 + n] else str_nat (n div 10) @ [48 + n mod 10])"
  by pat_completeness auto
termination
  by (relation "measure id") auto

declare str_nat.simps [simp del]

definition str_int :: "int \<Rightarrow> pystr" where
  "str_int i = (if i < 0 then 45 # str_nat (nat (- i)) else str_nat (nat i))"

text \<open>
  \<open>str.strip()\<close> removes leading and trailing white space, where white space is what
  CPython's \<open>Py_UNICODE_ISSPACE\<close> accepts.
\<close>

definition isspace :: "nat \<Rightarrow> bool" where
  "isspace c \<longleftrightarrow>
     (9 \<le> c \<and> c \<le> 13) \<or> (28 \<le> c \<and> c \<le> 32) \<or> c = 133 \<or> c = 160 \<or> c = 5760 \<or>
     (8192 \<le> c \<and> c \<le> 8202) \<or> c = 8232 \<or> c = 8233 \<or> c = 8239 \<or> c = 8287 \<or> c = 12288"

definition strip :: "pystr \<Rightarrow> pystr" where
  "strip s = rev (dropWhile isspace (rev (dropWhile isspace s)))"

text \<open>\<open>sep.join(parts)\<close>.\<close>

fun join :: "pystr \<Rightarrow> pystr list \<Rightarrow> pystr" where
  "join sep [] = []"
| "join sep [x] = x"
| "join sep (x # y # ys) = x @ sep @ join sep (y # ys)"

text \<open>
  The values that \<open>response.json()\<close> can hand to the program. Python checks no type
  annotation at run time, so whatever a service puts into a JSON field flows on as it
  is. A float is kept as its bit pattern; the program never computes with one. A
  \<open>dict\<close> is an association list with string keys, looked up with \<open>map_of\<close>.
\<close>

datatype pyval =
    PyNone
  | PyBool bool
  | PyInt int
  | PyFloat nat
  | PyStr pystr
  | PyList "pyval list"
  | PyDict "(pystr \<times> pyval) list"

fun type_name :: "pyval \<Rightarrow> pystr" where
  "type_name PyNone = lit ''NoneType''"
| "type_name (PyBool _) = lit ''bool''"
| "type_name (PyInt _) = lit ''int''"
| "type_name (PyFloat _) = lit ''float''"
| "type_name (PyStr _) = lit ''str''"
| "type_name (PyList _) = lit ''list''"
| "type_name (PyDict _) = lit ''dict''"

section \<open>Exceptions and HTTP responses\<close>

text \<open>
  A \<open>requests.Response\<close> as far as the program reads it: the status line, the body
  text, and what \<open>response.json()\<close> gives (\<open>Inl m\<close>: it raises a decoding error whose
  \<open>str\<close> is \<open>m\<close>).
\<close>

record response =
  status_code :: int
  reason :: pystr
  url :: pystr
  resp_text :: pystr
  json_body :: "pystr + pyval"

text \<open>
  The instances of \<open>Exception\<close>: \<open>requests.exceptions.HTTPError\<close> with its message and
  the response it carries (\<open>e.response\<close>), and every other exception with its class
  name and its \<open>str(e)\<close>. Asynchronous interrupts (\<open>KeyboardInterrupt\<close>, \<open>SystemExit\<close>)
  are not instances of \<open>Exception\<close> and are outside the model.
\<close>

datatype exn =
    HTTPError pystr response
  | Exception string pystr

fun str_exn :: "exn \<Rightarrow> pystr" where
  "str_exn (HTTPError m r) = m"
| "str_exn (Exception c m) = m"

definition raise_for_status :: "response \<Rightarrow> exn + unit" where
  "raise_for_status r =
     (if 400 \<le> status_code r \<and> status_code r < 500 then
        Inl (HTTPError (str_int (status_code r) @ lit '' Client Error: '' @ reason r
                          @ lit '' for url: '' @ url r) r)
      else if 500 \<le> status_code r \<and> status_code r < 600 then
        Inl (HTTPError (str_int (status_code r) @ lit '' Server Error: '' @ reason r
                          @ lit '' for url: '' @ url r) r)
      else Inr ())"

definition json :: "response \<Rightarrow> exn + pyval" where
  "json r = (case json_body r of
               Inl m \<Rightarrow> Inl (Exception ''JSONDecodeError'' m)
             | Inr v \<Rightarrow> Inr v)"

text \<open>\<open>obj.get(key, default)\<close>: only a \<open>dict\<close> has the method.\<close>

definition no_attribute :: "pyval \<Rightarrow> pystr \<Rightarrow> exn" where
  "no_attribute v name =
     Exception ''AttributeError''
       (quoted (type_name v) @ lit '' object has no attribute '' @ quoted name)"

definition get_method :: "pyval \<Rightarrow> pystr \<Rightarrow> pyval \<Rightarrow> exn + pyval" where
  "get_method v key dflt =
     (case v of
        PyDict kvs \<Rightarrow> Inr (case map_of kvs key of Some x \<Rightarrow> x | None \<Rightarrow> dflt)
      | _ \<Rightarrow> Inl (no_attribute v (lit ''get'')))"

text \<open>
  \<open>obj[key]\<close> with a string key and \<open>obj[i]\<close> with an integer index, with the errors
  CPython raises (messages in the wording of CPython 3.11 and later). The keys of a
  \<open>dict\<close> that comes from JSON are strings, so an integer key is never found. The
  \<open>KeyError\<close> message is the key's \<open>repr\<close>, written here for keys without quotes or
  escapes, as the three literal keys of the source are.
\<close>

definition not_subscriptable :: "pyval \<Rightarrow> exn" where
  "not_subscriptable v =
     Exception ''TypeError'' (quoted (type_name v) @ lit '' object is not subscriptable'')"

definition getitem_str :: "pyval \<Rightarrow> pystr \<Rightarrow> exn + pyval" where
  "getitem_str v key =
     (case v of
        PyDict kvs \<Rightarrow>
          (case map_of kvs key of
             Some x \<Rightarrow> Inr x
           | None \<Rightarrow> Inl (Exception ''KeyError'' (quoted key)))
      | PyList xs \<Rightarrow>
          Inl (Exception ''TypeError'' (lit ''list indices must be integers or slices, not str''))
      | PyStr s \<Rightarrow>
          Inl (Exception ''TypeError''
                 (lit ''string indices must be integers, not '' @ quoted (lit ''str'')))
      | _ \<Rightarrow> Inl (not_subscriptable v))"

definition index_list :: "'a list \<Rightarrow> int \<Rightarrow> 'a option" where
  "index_list xs i =
     (let n = int (length xs); j = (if i < 0 then n + i else i)
      in if 0 \<le> j \<and> j < n then Some (xs ! nat j) else None)"

definition getitem_int :: "pyval \<Rightarrow> int \<Rightarrow> exn + pyval" where
  "getitem_int v i =
     (case v of
        PyList xs \<Rightarrow>
          (case index_list xs i of
             Some x \<Rightarrow> Inr x
           | None \<Rightarrow> Inl (Exception ''IndexError'' (lit ''list index out of range'')))
      | PyStr s \<Rightarrow>
          (case index_list s i of
             Some c \<Rightarrow> Inr (PyStr [c])
           | None \<Rightarrow> Inl (Exception ''IndexError'' (lit ''string index out of range'')))
      | PyDict kvs \<Rightarrow> Inl (Exception ''KeyError'' (str_int i))
      | _ \<Rightarrow> Inl (not_subscriptable v))"

definition strip_method :: "pyval \<Rightarrow> exn + pystr" where
  "strip_method v =
     (case v of
        PyStr s \<Rightarrow> Inr (strip s)
      | _ \<Rightarrow> Inl (no_attribute v (lit ''strip'')))"

section \<open>The outside world\<close>

text \<open>
  Every call that leaves the process is recorded in a log, in order. The services are
  parameters of the model: what a service answers is a function of the log up to and
  including the call it answers, so a service may answer the same request differently
  at different times. \<open>py_str\<close> is Python's \<open>str()\<close> on a float, a list or a dict,
  whose text (the shortest float that reads back, the nested \<open>repr\<close> of the elements)
  is not worked out here; \<open>fmt\<close> below formats every other value itself.
\<close>

datatype call =
    RequestsPost pystr "(pystr \<times> pystr option) list" pyval
  | RequestsPostFiles pystr "(pystr \<times> pystr option) list"
      "(pystr \<times> pystr \<times> bytes \<times> pystr) list" "(pystr \<times> pystr) list"
  | ChromaGetCollection pystr pystr
  | CollectionQuery "pyval list" nat
  | TtsConvert pystr pystr pystr pystr

text \<open>
  \<open>results["documents"][0]\<close> and \<open>results["metadatas"][0]\<close> of a Chroma query with one
  query text; a record stored without metadata comes back with \<open>None\<close>.
\<close>

record query_result =
  documents :: "pystr list"
  metadatas :: "(pystr \<times> pyval) list option list"

record env =
  SARVAM_API_KEY :: "pystr option"
  requests_post :: "call list \<Rightarrow> exn + response"
  chroma_get_collection :: "call list \<Rightarrow> exn + unit"
  collection_query :: "call list \<Rightarrow> exn + query_result"
  tts_convert :: "call list \<Rightarrow> exn + pystr list"
  b64decode :: "pystr \<Rightarrow> exn + bytes"
  py_str :: "pyval \<Rightarrow> pystr"

text \<open>
  The state of the process: the log and the module's global \<open>_collection\<close> (whether it
  has been set).
\<close>

record world =
  calls :: "call list"
  collection_set :: bool

definition external :: "(call list \<Rightarrow> exn + 'a) \<Rightarrow> call \<Rightarrow> world \<Rightarrow> (exn + 'a) \<times> world" where
  "external reply c w = (let w' = w\<lparr>calls := calls w @ [c]\<rparr> in (reply (calls w'), w'))"

text \<open>Sequencing: an exception ends what follows it.\<close>

definition bind_exn ::
  "(exn + 'a) \<times> world \<Rightarrow> ('a \<Rightarrow> world \<Rightarrow> (exn + 'b) \<times> world) \<Rightarrow> (exn + 'b) \<times> world" where
  "bind_exn m f = (case m of (Inl e, w) \<Rightarrow> (Inl e, w) | (Inr v, w) \<Rightarrow> f v w)"

text \<open>
  A value in an f-string, \<open>f"{v}"\<close>: a string as itself, \<open>None\<close>, a bool and an int as
  \<open>str()\<close> prints them.
\<close>

definition fmt :: "env \<Rightarrow> pyval \<Rightarrow> pystr" where
  "fmt E v =
     (case v of
        PyStr s \<Rightarrow> s
      | PyNone \<Rightarrow> lit ''None''
      | PyBool b \<Rightarrow> (if b then lit ''True'' else lit ''False'')
      | PyInt i \<Rightarrow> str_int i
      | _ \<Rightarrow> py_str E v)"

section \<open>Configuration tables\<close>

definition DB_PATH :: pystr where
  "DB_PATH = lit ''./ramayana_db''"

definition COLLECTION :: pystr where
  "COLLECTION = lit ''ramayana_passages''"

definition LANGUAGE_CODES :: "(pystr \<times> pystr) list" where
  "LANGUAGE_CODES =
     [(lit ''English'', lit ''en-IN''),
      (lit ''Hindi'', lit ''hi-IN''),
      (lit ''Tamil'', lit ''ta-IN''),
      (lit ''Telugu'', lit ''te-IN''),
      (lit ''Kannada'', lit ''kn-IN''),
      (lit ''Malayalam'', lit ''ml-IN''),
      (lit ''Bengali'', lit ''bn-IN''),
      (lit ''Marathi'', lit ''mr-IN''),
      (lit ''Gujarati'', lit ''gu-IN''),
      (lit ''Punjabi'', lit ''pa-IN'')]"

definition TTS_VOICES :: "(pystr \<times> pystr) list" where
  "TTS_VOICES =
     [(lit ''English'', lit ''shubh''),
      (lit ''Hindi'', lit ''anushka''),
      (lit ''Tamil'', lit ''abhilasha''),
      (lit ''Telugu'', lit ''anushka''),
      (lit ''Kannada'', lit ''anushka''),
      (lit ''Malayalam'', lit ''anushka''),
      (lit ''Bengali'', lit ''anushka''),
      (lit ''Marathi'', lit ''anushka''),
      (lit ''Gujarati'', lit ''anushka''),
      (lit ''Punjabi'', lit ''anushka'')]"

text \<open>\<open>table.get(key, default)\<close> on a table of the program.\<close>

definition dict_get :: "('k \<times> 'v) list \<Rightarrow> 'k \<Rightarrow> 'v \<Rightarrow> 'v" where
  "dict_get table key dflt = (case map_of table key of Some v \<Rightarrow> v | None \<Rightarrow> dflt)"

section \<open>Sarvam Translate\<close>

definition translate_request :: "env \<Rightarrow> pystr \<Rightarrow> pystr \<Rightarrow> pystr \<Rightarrow> call" where
  "translate_request E txt source_lang target_lang =
     RequestsPost (lit ''https://api.sarvam.ai/translate'')
       [(lit ''api-subscription-key'', SARVAM_API_KEY E),
        (lit ''Content-Type'', Some (lit ''application/json''))]
       (PyDict
          [(lit ''input'', PyStr txt),
           (lit ''source_language_code'', PyStr source_lang),
           (lit ''target_language_code'', PyStr target_lang),
           (lit ''model'', PyStr (lit ''mayura:v1'')),
           (lit ''mode'', PyStr (lit ''formal''))])"

definition translate_text ::
  "env \<Rightarrow> world \<Rightarrow> pystr \<Rightarrow> pystr \<Rightarrow> pystr \<Rightarrow> (exn + pyval) \<times> world" where
  "translate_text E w txt source_lang target_lang =
     (if source_lang = target_lang then (Inr (PyStr txt), w)
      else
        bind_exn (external (requests_post E) (translate_request E txt source_lang target_lang) w)
          (\<lambda>response w1.
             case raise_for_status response of
               Inl e \<Rightarrow> (Inl e, w1)
             | Inr _ \<Rightarrow>
                 (case json response of
                    Inl e \<Rightarrow> (Inl e, w1)
                  | Inr body \<Rightarrow> (get_method body (lit ''translated_text'') (PyStr txt), w1))))"

section \<open>ChromaDB retrieval\<close>

record passage =
  ptext :: pystr
  kanda :: pyval
  topic :: pyval
  characters :: pyval

definition get_collection :: "env \<Rightarrow> world \<Rightarrow> (exn + unit) \<times> world" where
  "get_collection E w =
     (if collection_set w then (Inr (), w)
      else
        bind_exn (external (chroma_get_collection E) (ChromaGetCollection DB_PATH COLLECTION) w)
          (\<lambda>_ w1. (Inr (), w1\<lparr>collection_set := True\<rparr>)))"

text \<open>
  The loop of \<open>retrieve_passages\<close> over \<open>enumerate(results["documents"][0])\<close>:
  \<open>metadatas[i]\<close> raises when the metadata list is shorter, and \<open>meta.get\<close> raises when
  the entry is \<open>None\<close>.
\<close>

fun passages_loop ::
  "(pystr \<times> pyval) list option list \<Rightarrow> nat \<Rightarrow> pystr list \<Rightarrow> passage list \<Rightarrow> exn + passage list" where
  "passages_loop metas i [] acc = Inr acc"
| "passages_loop metas i (doc # docs) acc =
     (if i < length metas then
        (case metas ! i of
           None \<Rightarrow> Inl (no_attribute PyNone (lit ''get''))
         | Some meta \<Rightarrow>
             passages_loop metas (Suc i) docs
               (acc @ [\<lparr>ptext = doc,
                        kanda = dict_get meta (lit ''kanda'') (PyStr []),
                        topic = dict_get meta (lit ''topic'') (PyStr []),
                        characters = dict_get meta (lit ''characters'') (PyStr [])\<rparr>]))
      else Inl (Exception ''IndexError'' (lit ''list index out of range'')))"

definition retrieve_passages ::
  "env \<Rightarrow> world \<Rightarrow> pyval \<Rightarrow> nat \<Rightarrow> (exn + passage list) \<times> world" where
  "retrieve_passages E w query_en n_results =
     bind_exn (get_collection E w)
       (\<lambda>_ w1.
          bind_exn (external (collection_query E) (CollectionQuery [query_en] n_results) w1)
            (\<lambda>results w2. (passages_loop (metadatas results) 0 (documents results) [], w2)))"

section \<open>Sarvam-M chat completion\<close>

definition context_part :: "env \<Rightarrow> nat \<times> passage \<Rightarrow> pystr" where
  "context_part E ip =
     (case ip of (i, p) \<Rightarrow>
        lit ''[Passage '' @ str_int (int i) @ [32, em_dash, 32] @ fmt E (kanda p)
          @ lit '', Topic: '' @ fmt E (topic p) @ lit '']'' @ [10] @ ptext p)"

definition context_block :: "env \<Rightarrow> passage list \<Rightarrow> pystr" where
  "context_block E ps = join [10, 10] (map (context_part E) (List.enumerate 1 ps))"

definition system_prompt :: pystr where
  "system_prompt =
     lit ''You are Valmiki, the sage-poet and author of the Ramayana. ''
     @ lit ''You have deep knowledge of all events, characters, and teachings of the Ramayana. ''
     @ lit ''Answer questions thoughtfully and accurately based on the provided context passages. ''
     @ lit ''If the context does not contain enough information, draw on your knowledge of the Ramayana. ''
     @ lit ''Keep answers concise (3-5 sentences) unless the question requires detail. ''
     @ lit ''Always respond in English '' @ [em_dash]
     @ lit '' the response will be translated separately.''"

definition user_message :: "env \<Rightarrow> pyval \<Rightarrow> passage list \<Rightarrow> pystr" where
  "user_message E query_en ps =
     lit ''Context from the Ramayana:'' @ [10, 10] @ context_block E ps @ [10, 10]
     @ lit ''Question: '' @ fmt E query_en @ [10, 10]
     @ lit ''Answer as Valmiki the sage:''"

definition chat_request :: "env \<Rightarrow> pyval \<Rightarrow> passage list \<Rightarrow> call" where
  "chat_request E query_en ps =
     RequestsPost (lit ''https://api.sarvam.ai/v1/chat/completions'')
       [(lit ''api-subscription-key'', SARVAM_API_KEY E),
        (lit ''Content-Type'', Some (lit ''application/json''))]
       (PyDict
          [(lit ''model'', PyStr (lit ''sarvam-m'')),
           (lit ''messages'',
              PyList [PyDict [(lit ''role'', PyStr (lit ''system'')),
                              (lit ''content'', PyStr system_prompt)],
                      PyDict [(lit ''role'', PyStr (lit ''user'')),
                              (lit ''content'', PyStr (user_message E query_en ps))]]),
           (lit ''max_tokens'', PyInt 512)])"

text \<open>\<open>response.json()["choices"][0]["message"]["content"].strip()\<close>, step by step.\<close>

definition answer_of_body :: "pyval \<Rightarrow> exn + pystr" where
  "answer_of_body body =
     (case getitem_str body (lit ''choices'') of
        Inl e \<Rightarrow> Inl e
      | Inr choices \<Rightarrow>
          (case getitem_int choices 0 of
             Inl e \<Rightarrow> Inl e
           | Inr choice \<Rightarrow>
               (case getitem_str choice (lit ''message'') of
                  Inl e \<Rightarrow> Inl e
                | Inr message \<Rightarrow>
                    (case getitem_str message (lit ''content'') of
                       Inl e \<Rightarrow> Inl e
                     | Inr content \<Rightarrow> strip_method content))))"

definition generate_answer ::
  "env \<Rightarrow> world \<Rightarrow> pyval \<Rightarrow> passage list \<Rightarrow> (exn + pystr) \<times> world" where
  "generate_answer E w query_en ps =
     bind_exn (external (requests_post E) (chat_request E query_en ps) w)
       (\<lambda>response w1.
          case raise_for_status response of
            Inl e \<Rightarrow> (Inl e, w1)
          | Inr _ \<Rightarrow>
              (case json response of
                 Inl e \<Rightarrow> (Inl e, w1)
               | Inr body \<Rightarrow> (answer_of_body body, w1)))"

section \<open>The pipeline\<close>

text \<open>
  The dict that \<open>ask\<close> returns. \<open>answer\<close> is \<open>PyNone\<close> for Python's \<open>None\<close>; \<open>error\<close> is
  \<open>None\<close> or a string; \<open>query_en = None\<close> says that the dict has no such key, as on the
  two error paths.
\<close>

record pipeline_result =
  answer :: pyval
  passages :: "passage list"
  language :: pystr
  query_en :: "pyval option"
  error :: "pystr option"

definition lang_code_of :: "pystr \<Rightarrow> pystr" where
  "lang_code_of lang = dict_get LANGUAGE_CODES lang (lit ''en-IN'')"

text \<open>Step 1 and step 4 of the \<open>try\<close> block: the two guarded calls of \<open>translate_text\<close>.\<close>

definition translate_query :: "env \<Rightarrow> world \<Rightarrow> pystr \<Rightarrow> pystr \<Rightarrow> (exn + pyval) \<times> world" where
  "translate_query E w query lang_code =
     (if lang_code \<noteq> lit ''en-IN'' then translate_text E w query lang_code (lit ''en-IN'')
      else (Inr (PyStr query), w))"

definition translate_answer :: "env \<Rightarrow> world \<Rightarrow> pystr \<Rightarrow> pystr \<Rightarrow> (exn + pyval) \<times> world" where
  "translate_answer E w answer_en lang_code =
     (if lang_code \<noteq> lit ''en-IN'' then translate_text E w answer_en (lit ''en-IN'') lang_code
      else (Inr (PyStr answer_en), w))"

text \<open>The two \<open>except\<close> clauses, in the order of the source.\<close>

definition ask_except :: "pystr \<Rightarrow> exn \<Rightarrow> pipeline_result" where
  "ask_except lang e =
     (case e of
        HTTPError m r \<Rightarrow>
          \<lparr>answer = PyNone, passages = [], language = lang, query_en = None,
           error = Some (lit ''API error: '' @ str_int (status_code r) @ [32, em_dash, 32]
                         @ resp_text r)\<rparr>
      | _ \<Rightarrow>
          \<lparr>answer = PyNone, passages = [], language = lang, query_en = None,
           error = Some (str_exn e)\<rparr>)"

text \<open>The \<open>try\<close> statement of \<open>ask\<close>, for the language code that its first line resolved.\<close>

definition ask_pipeline ::
  "env \<Rightarrow> world \<Rightarrow> pystr \<Rightarrow> pystr \<Rightarrow> pystr \<Rightarrow> (exn + pipeline_result) \<times> world" where
  "ask_pipeline E w query lang lang_code =
     (let body =
            bind_exn (translate_query E w query lang_code)
              (\<lambda>q_en w1.
                 bind_exn (retrieve_passages E w1 q_en 3)
                   (\<lambda>ps w2.
                      bind_exn (generate_answer E w2 q_en ps)
                        (\<lambda>answer_en w3.
                           bind_exn (translate_answer E w3 answer_en lang_code)
                             (\<lambda>a w4.
                                (Inr \<lparr>answer = a, passages = ps, language = lang,
                                      query_en = Some q_en, error = None\<rparr>, w4)))))
      in case body of
           (Inr r, w') \<Rightarrow> (Inr r, w')
         | (Inl e, w') \<Rightarrow> (Inr (ask_except lang e), w'))"

definition ask :: "env \<Rightarrow> world \<Rightarrow> pystr \<Rightarrow> pystr \<Rightarrow> (exn + pipeline_result) \<times> world" where
  "ask E w query lang = ask_pipeline E w query lang (lang_code_of lang)"

section \<open>Speech-to-text\<close>

record transcription_result =
  transcript :: pyval
  language_code :: pyval
  stt_error :: "pystr option"

definition stt_request :: "env \<Rightarrow> bytes \<Rightarrow> pystr \<Rightarrow> call" where
  "stt_request E audio lang_code =
     RequestsPostFiles (lit ''https://api.sarvam.ai/speech-to-text'')
       [(lit ''api-subscription-key'', SARVAM_API_KEY E)]
       [(lit ''file'', lit ''audio.wav'', audio, lit ''audio/wav'')]
       [(lit ''model'', lit ''saarika:v2.5''), (lit ''language_code'', lang_code)]"

definition speech_to_text ::
  "env \<Rightarrow> world \<Rightarrow> bytes \<Rightarrow> pystr \<Rightarrow> (exn + transcription_result) \<times> world" where
  "speech_to_text E w audio lang =
     (let lang_code = lang_code_of lang;
          body =
            bind_exn
              (external (requests_post E)
                 (stt_request E audio lang_code)
                 w)
              (\<lambda>response w1.
                 case raise_for_status response of
                   Inl e \<Rightarrow> (Inl e, w1)
                 | Inr _ \<Rightarrow>
                     (case json response of
                        Inl e \<Rightarrow> (Inl e, w1)
                      | Inr result \<Rightarrow>
                          (case get_method result (lit ''transcript'') (PyStr []) of
                             Inl e \<Rightarrow> (Inl e, w1)
                           | Inr t \<Rightarrow>
                               (case get_method result (lit ''language_code'') (PyStr lang_code) of
                                  Inl e \<Rightarrow> (Inl e, w1)
                                | Inr c \<Rightarrow>
                                    (Inr \<lparr>transcript = t, language_code = c,
                                          stt_error = None\<rparr>, w1)))))
      in case body of
           (Inr r, w') \<Rightarrow> (Inr r, w')
         | (Inl (HTTPError m r), w') \<Rightarrow>
             (Inr \<lparr>transcript = PyStr [], language_code = PyStr lang_code,
                   stt_error = Some (lit ''STT error: '' @ str_int (status_code r)
                                     @ [32, em_dash, 32] @ resp_text r)\<rparr>, w')
         | (Inl e, w') \<Rightarrow>
             (Inr \<lparr>transcript = PyStr [], language_code = PyStr lang_code,
                   stt_error = Some (str_exn e)\<rparr>, w'))"

section \<open>Text-to-speech\<close>

record synthesis_result =
  audio_bytes :: "bytes option"
  tts_error :: "pystr option"

text \<open>The text that \<open>text_to_speech\<close> hands to the SDK, after the length check.\<close>

definition tts_text :: "pystr \<Rightarrow> pystr" where
  "tts_text txt = (if length txt > 2500 then take 2490 txt @ lit ''...'' else txt)"

definition text_to_speech ::
  "env \<Rightarrow> world \<Rightarrow> pystr \<Rightarrow> pystr \<Rightarrow> (exn + synthesis_result) \<times> world" where
  "text_to_speech E w txt lang =
     (let lang_code = lang_code_of lang;
          speaker = dict_get TTS_VOICES lang (lit ''shubh'');
          txt' = tts_text txt;
          body =
            bind_exn
              (external (tts_convert E) (TtsConvert txt' lang_code (lit ''bulbul:v3'') speaker) w)
              (\<lambda>audios w1.
                 case index_list audios 0 of
                   None \<Rightarrow> (Inl (Exception ''IndexError'' (lit ''list index out of range'')), w1)
                 | Some audio_base64 \<Rightarrow>
                     (case b64decode E audio_base64 of
                        Inl e \<Rightarrow> (Inl e, w1)
                      | Inr decoded \<Rightarrow>
                          (Inr \<lparr>audio_bytes = Some decoded, tts_error = None\<rparr>, w1)))
      in case body of
           (Inr r, w') \<Rightarrow> (Inr r, w')
         | (Inl e, w') \<Rightarrow> (Inr \<lparr>audio_bytes = None, tts_error = Some (str_exn e)\<rparr>, w'))"

section \<open>Observing the log\<close>

text \<open>The calls of a log that went to the Translation Service.\<close>

definition translation_calls :: "call list \<Rightarrow> call list" where
  "translation_calls cs =
     filter (\<lambda>c. case c of
                   RequestsPost u _ _ \<Rightarrow> u = lit ''https://api.sarvam.ai/translate''
                 | _ \<Rightarrow> False) cs"

section \<open>Example services\<close>

text \<open>
  A fresh process, and services for running the program on concrete inputs. In
  \<open>example_env k reply res\<close> the call number \<open>k\<close> of the log is the odd one: an HTTP
  request made as call \<open>k\<close> gets \<open>reply\<close> (a response, or an exception of the transport),
  a store query or a synthesis made as call \<open>k\<close> raises; every other call succeeds, and
  the store answers \<open>res\<close>. With \<open>k = 0\<close> nothing goes wrong. The example services
  put no float, list or dict where the program formats a value, so their \<open>py_str\<close> is
  never asked for more than the empty list and the empty dict, which it prints as
  Python does.
\<close>

definition w0 :: world where
  "w0 = \<lparr>calls = [], collection_set = False\<rparr>"

definition ok_response :: response where
  "ok_response =
     \<lparr>status_code = 200, reason = lit ''OK'', url = lit ''https://api.sarvam.ai'',
      resp_text = lit ''{}'',
      json_body = Inr (PyDict
        [(lit ''translated_text'', PyStr (lit ''translated'')),
         (lit ''transcript'', PyStr (lit ''Who is Hanuman?'')),
         (lit ''choices'',
            PyList [PyDict [(lit ''message'',
               PyDict [(lit ''content'', PyStr (lit '' Hanuman is the son of Vayu. ''))])]])])\<rparr>"

definition failing_response :: response where
  "failing_response =
     \<lparr>status_code = 500, reason = lit ''Internal Server Error'',
      url = lit ''https://api.sarvam.ai'', resp_text = lit ''upstream down'',
      json_body = Inl (lit ''Expecting value'')\<rparr>"

definition null_response :: response where
  "null_response =
     \<lparr>status_code = 200, reason = lit ''OK'', url = lit ''https://api.sarvam.ai'',
      resp_text = lit ''{}'',
      json_body = Inr (PyDict [(lit ''translated_text'', PyNone)])\<rparr>"

definition found_response :: response where
  "found_response = ok_response\<lparr>status_code := 302, reason := lit ''Found''\<rparr>"

definition example_passage :: passage where
  "example_passage =
     \<lparr>ptext = lit ''Hanuman leaps across the ocean to Lanka.'',
      kanda = PyStr (lit ''Sundara Kanda''),
      topic = PyStr (lit ''Leap to Lanka''),
      characters = PyStr (lit ''Hanuman'')\<rparr>"

definition example_results :: query_result where
  "example_results =
     \<lparr>documents = [lit ''Hanuman leaps across the ocean to Lanka.''],
      metadatas = [Some [(lit ''kanda'', PyStr (lit ''Sundara Kanda'')),
                         (lit ''topic'', PyStr (lit ''Leap to Lanka'')),
                         (lit ''characters'', PyStr (lit ''Hanuman''))]]\<rparr>"

definition no_results :: query_result where
  "no_results = \<lparr>documents = [], metadatas = []\<rparr>"

definition example_str :: "pyval \<Rightarrow> pystr" where
  "example_str v =
     (case v of PyList [] \<Rightarrow> lit ''[]'' | PyDict [] \<Rightarrow> lit ''{}'' | _ \<Rightarrow> lit ''?'')"

definition example_env :: "nat \<Rightarrow> exn + response \<Rightarrow> query_result \<Rightarrow> env" where
  "example_env k reply res =
     \<lparr>SARVAM_API_KEY = Some (lit ''key''),
      requests_post = (\<lambda>log. if length log = k then reply else Inr ok_response),
      chroma_get_collection = (\<lambda>log. Inr ()),
      collection_query =
        (\<lambda>log. if length log = k then Inl (Exception ''ValueError'' (lit ''index unavailable''))
               else Inr res),
      tts_convert =
        (\<lambda>log. if length log = k then Inl (Exception ''ApiError'' (lit ''quota exceeded''))
               else Inr [lit ''QUJD'']),
      b64decode = (\<lambda>s. if s = lit ''QUJD'' then Inr [65, 66, 67]
                        else Inl (Exception ''Error'' (lit ''Incorrect padding''))),
      py_str = example_str\<rparr>"

section \<open>Basic facts about sequencing and the log\<close>

lemma bind_exn_Inl [simp]: "bind_exn (Inl e, w) f = (Inl e, w)"
  by (simp add: bind_exn_def)

lemma bind_exn_Inr [simp]: "bind_exn (Inr v, w) f = f v w"
  by (simp add: bind_exn_def)

lemma bind_exn_pair:
  "bind_exn (r, w) f = (case r of Inl e \<Rightarrow> (Inl e, w) | Inr v \<Rightarrow> f v w)"
  by (simp add: bind_exn_def split: sum.splits)

lemma external_eq:
  "external reply c w = (reply (calls w @ [c]), w\<lparr>calls := calls w @ [c]\<rparr>)"
  by (simp add: external_def Let_def)

lemma dict_get_absent: "key \<notin> set (map fst table) \<Longrightarrow> dict_get table key dflt = dflt"
  by (simp add: dict_get_def map_of_eq_None_iff[THEN iffD2])

lemma translation_calls_append [simp]:
  "translation_calls (xs @ ys) = translation_calls xs @ translation_calls ys"
  by (simp add: translation_calls_def)

lemma translation_calls_Nil [simp]: "translation_calls [] = []"
  by (simp add: translation_calls_def)

lemma chat_request_not_translation [simp]:
  "translation_calls [chat_request E q ps] = []"
  by (simp add: translation_calls_def chat_request_def lit_def)

lemma retrieve_passages_calls:
  "\<exists>new. calls (snd (retrieve_passages E w q n)) = calls w @ new \<and> translation_calls new = []"
proof (cases "collection_set w")
  case True
  then show ?thesis
    by (cases "collection_query E (calls w @ [CollectionQuery [q] n])")
       (simp_all add: retrieve_passages_def get_collection_def external_eq translation_calls_def)
next
  case False
  show ?thesis
  proof (cases "chroma_get_collection E (calls w @ [ChromaGetCollection DB_PATH COLLECTION])")
    case (Inl e)
    with False show ?thesis
      by (simp add: retrieve_passages_def get_collection_def external_eq translation_calls_def)
  next
    case (Inr u)
    with False show ?thesis
      by (cases "collection_query E
                   (calls w @ [ChromaGetCollection DB_PATH COLLECTION, CollectionQuery [q] n])")
         (simp_all add: retrieve_passages_def get_collection_def external_eq translation_calls_def)
  qed
qed

lemma generate_answer_calls:
  "calls (snd (generate_answer E w q ps)) = calls w @ [chat_request E q ps]"
  by (simp add: generate_answer_def external_eq bind_exn_pair split: sum.splits)

lemma translate_text_calls:
  "source_lang \<noteq> target_lang \<Longrightarrow>
   calls (snd (translate_text E w txt source_lang target_lang)) =
     calls w @ [translate_request E txt source_lang target_lang]"
  by (simp add: translate_text_def external_eq bind_exn_pair split: sum.splits)

lemma tts_calls:
  "calls (snd (text_to_speech E w txt lang)) =
     calls w @ [TtsConvert (tts_text txt) (lang_code_of lang) (lit ''bulbul:v3'')
                  (dict_get TTS_VOICES lang (lit ''shubh''))]"
  by (simp add: text_to_speech_def external_eq bind_exn_pair Let_def split: sum.splits option.splits)

lemma ask_pipeline_eq:
  "ask_pipeline E w query lang c =
     (case translate_query E w query c of
        (Inl e, w1) \<Rightarrow> (Inr (ask_except lang e), w1)
      | (Inr q_en, w1) \<Rightarrow>
          (case retrieve_passages E w1 q_en 3 of
             (Inl e, w2) \<Rightarrow> (Inr (ask_except lang e), w2)
           | (Inr ps, w2) \<Rightarrow>
               (case generate_answer E w2 q_en ps of
                  (Inl e, w3) \<Rightarrow> (Inr (ask_except lang e), w3)
                | (Inr answer_en, w3) \<Rightarrow>
                    (case translate_answer E w3 answer_en c of
                       (Inl e, w4) \<Rightarrow> (Inr (ask_except lang e), w4)
                     | (Inr a, w4) \<Rightarrow>
                         (Inr \<lparr>answer = a, passages = ps, language = lang,
                               query_en = Some q_en, error = None\<rparr>, w4)))))"
  by (simp add: ask_pipeline_def bind_exn_def Let_def split: prod.splits sum.splits)

lemma ask_except_fields:
  "answer (ask_except lang e) = PyNone \<and> passages (ask_except lang e) = [] \<and>
   language (ask_except lang e) = lang \<and> query_en (ask_except lang e) = None \<and>
   (\<exists>m. error (ask_except lang e) = Some m)"
  by (cases e) (simp_all add: ask_except_def)

lemma translate_query_calls:
  "\<exists>new. calls (snd (translate_query E w query c)) = calls w @ new"
  by (simp add: translate_query_def translate_text_calls)

lemma translate_answer_calls:
  "\<exists>new. calls (snd (translate_answer E w a c)) = calls w @ new"
  by (simp add: translate_answer_def translate_text_calls)

text \<open>The definitions that running the program on a concrete input unfolds.\<close>

lemmas run_defs =
  lang_code_of_def dict_get_def LANGUAGE_CODES_def TTS_VOICES_def
  translate_query_def translate_answer_def translate_text_def external_eq bind_exn_pair
  retrieve_passages_def get_collection_def generate_answer_def raise_for_status_def json_def
  get_method_def answer_of_body_def getitem_str_def getitem_int_def index_list_def
  strip_method_def strip_def isspace_def str_int_def str_nat.simps
  example_env_def w0_def ok_response_def failing_response_def null_response_def
  example_results_def no_results_def example_passage_def em_dash_def lit_def

lemma raise_for_status_error:
  "400 \<le> status_code r \<Longrightarrow> status_code r < 600 \<Longrightarrow> \<exists>m. raise_for_status r = Inl (HTTPError m r)"
  by (simp add: raise_for_status_def)

lemma raise_for_status_ok:
  "status_code r < 400 \<or> 600 \<le> status_code r \<Longrightarrow> raise_for_status r = Inr ()"
  by (auto simp: raise_for_status_def)

lemma translate_text_eq:
  "source_lang \<noteq> target_lang \<Longrightarrow>
   translate_text E w txt source_lang target_lang =
     (case requests_post E (calls w @ [translate_request E txt source_lang target_lang]) of
        Inl e \<Rightarrow> Inl e
      | Inr resp \<Rightarrow>
          (case raise_for_status resp of
             Inl e \<Rightarrow> Inl e
           | Inr _ \<Rightarrow>
               (case json resp of
                  Inl e \<Rightarrow> Inl e
                | Inr body \<Rightarrow> get_method body (lit ''translated_text'') (PyStr txt))),
      w\<lparr>calls := calls w @ [translate_request E txt source_lang target_lang]\<rparr>)"
  by (simp add: translate_text_def external_eq bind_exn_pair split: sum.splits)

lemma generate_answer_eq:
  "generate_answer E w q_en ps =
     (case requests_post E (calls w @ [chat_request E q_en ps]) of
        Inl e \<Rightarrow> Inl e
      | Inr resp \<Rightarrow>
          (case raise_for_status resp of
             Inl e \<Rightarrow> Inl e
           | Inr _ \<Rightarrow>
               (case json resp of
                  Inl e \<Rightarrow> Inl e
                | Inr body \<Rightarrow> answer_of_body body)),
      w\<lparr>calls := calls w @ [chat_request E q_en ps]\<rparr>)"
  by (simp add: generate_answer_def external_eq bind_exn_pair split: sum.splits)


lemma translate_text_http_error:
  "source_lang \<noteq> target_lang \<Longrightarrow>
   requests_post E (calls w @ [translate_request E txt source_lang target_lang]) = Inr resp \<Longrightarrow>
   400 \<le> status_code resp \<Longrightarrow> status_code resp < 600 \<Longrightarrow>
   \<exists>m. translate_text E w txt source_lang target_lang =
         (Inl (HTTPError m resp),
          w\<lparr>calls := calls w @ [translate_request E txt source_lang target_lang]\<rparr>)"
  using raise_for_status_error [of resp] by (auto simp: translate_text_eq)

lemma generate_answer_http_error:
  "requests_post E (calls w @ [chat_request E q_en ps]) = Inr resp \<Longrightarrow>
   400 \<le> status_code resp \<Longrightarrow> status_code resp < 600 \<Longrightarrow>
   \<exists>m. generate_answer E w q_en ps =
         (Inl (HTTPError m resp), w\<lparr>calls := calls w @ [chat_request E q_en ps]\<rparr>)"
  using raise_for_status_error [of resp] by (auto simp: generate_answer_eq)

lemma ask_except_http:
  "ask_except lang (HTTPError m r) =
     \<lparr>answer = PyNone, passages = [], language = lang, query_en = None,
      error = Some (lit ''API error: '' @ str_int (status_code r) @ [32, em_dash, 32]
                    @ resp_text r)\<rparr>"
  by (simp add: ask_except_def)


lemma ask_after_retrieval:
  "(translate_query E w query (lang_code_of lang) = (Inr q_en, w1) \<and>
    retrieve_passages E w1 q_en 3 = (Inr ps, w2) \<longrightarrow>
      (\<exists>rest. calls (snd (ask E w query lang)) = calls w2 @ chat_request E q_en ps # rest) \<and>
      (\<forall>answer_en w3 a w4.
         generate_answer E w2 q_en ps = (Inr answer_en, w3) \<and>
         translate_answer E w3 answer_en (lang_code_of lang) = (Inr a, w4) \<longrightarrow>
           ask E w query lang =
             (Inr \<lparr>answer = a, passages = ps, language = lang, query_en = Some q_en,
                   error = None\<rparr>, w4)))"
proof -
  have main: "(\<exists>rest. calls (snd (ask E w query lang)) = calls w2 @ chat_request E q_en ps # rest) \<and>
      (\<forall>answer_en w3 a w4.
         generate_answer E w2 q_en ps = (Inr answer_en, w3) \<and>
         translate_answer E w3 answer_en (lang_code_of lang) = (Inr a, w4) \<longrightarrow>
           ask E w query lang =
             (Inr \<lparr>answer = a, passages = ps, language = lang, query_en = Some q_en,
                   error = None\<rparr>, w4))"
    if s1: "translate_query E w query (lang_code_of lang) = (Inr q_en, w1)"
      and s2: "retrieve_passages E w1 q_en 3 = (Inr ps, w2)"
  proof -
    obtain r3 w3 where s3: "generate_answer E w2 q_en ps = (r3, w3)"
      by (cases "generate_answer E w2 q_en ps")
    have c3: "calls w3 = calls w2 @ [chat_request E q_en ps]"
      using generate_answer_calls [of E w2 q_en ps] s3 by simp
    have log: "\<exists>rest. calls (snd (ask E w query lang)) = calls w2 @ chat_request E q_en ps # rest"
    proof (cases r3)
      case (Inl e)
      with s1 s2 s3 c3 show ?thesis
        by (simp add: ask_def ask_pipeline_eq)
    next
      case (Inr answer_en)
      obtain r4 w4 where s4: "translate_answer E w3 answer_en (lang_code_of lang) = (r4, w4)"
        by (cases "translate_answer E w3 answer_en (lang_code_of lang)")
      obtain new where c4: "calls w4 = calls w3 @ new"
        using translate_answer_calls [of E w3 answer_en "lang_code_of lang"] s4 by auto
      from Inr s1 s2 s3 s4 c3 c4 show ?thesis
        by (cases r4) (simp_all add: ask_def ask_pipeline_eq)
    qed
    have result: "\<forall>answer_en w3 a w4.
         generate_answer E w2 q_en ps = (Inr answer_en, w3) \<and>
         translate_answer E w3 answer_en (lang_code_of lang) = (Inr a, w4) \<longrightarrow>
           ask E w query lang =
             (Inr \<lparr>answer = a, passages = ps, language = lang, query_en = Some q_en,
                   error = None\<rparr>, w4)"
      using s1 s2 by (simp add: ask_def ask_pipeline_eq)
    from log result show ?thesis ..
  qed
  from main show ?thesis
    by blast
qed

lemma speech_to_text_eq:
  "speech_to_text E w audio lang =
     (Inr (case requests_post E (calls w @ [stt_request E audio (lang_code_of lang)]) of
             Inl (HTTPError m r) \<Rightarrow>
               \<lparr>transcript = PyStr [], language_code = PyStr (lang_code_of lang),
                stt_error = Some (lit ''STT error: '' @ str_int (status_code r)
                                  @ [32, em_dash, 32] @ resp_text r)\<rparr>
           | Inl (Exception cls m) \<Rightarrow>
               \<lparr>transcript = PyStr [], language_code = PyStr (lang_code_of lang),
                stt_error = Some m\<rparr>
           | Inr resp \<Rightarrow>
               (case raise_for_status resp of
                  Inl (HTTPError m r) \<Rightarrow>
                    \<lparr>transcript = PyStr [], language_code = PyStr (lang_code_of lang),
                     stt_error = Some (lit ''STT error: '' @ str_int (status_code r)
                                       @ [32, em_dash, 32] @ resp_text r)\<rparr>
                | Inl (Exception cls m) \<Rightarrow>
                    \<lparr>transcript = PyStr [], language_code = PyStr (lang_code_of lang),
                     stt_error = Some m\<rparr>
                | Inr _ \<Rightarrow>
                    (case json_body resp of
                       Inl m \<Rightarrow>
                         \<lparr>transcript = PyStr [], language_code = PyStr (lang_code_of lang),
                          stt_error = Some m\<rparr>
                     | Inr (PyDict kvs) \<Rightarrow>
                         \<lparr>transcript = (case map_of kvs (lit ''transcript'') of
                                          Some x \<Rightarrow> x | None \<Rightarrow> PyStr []),
                          language_code = (case map_of kvs (lit ''language_code'') of
                                             Some x \<Rightarrow> x | None \<Rightarrow> PyStr (lang_code_of lang)),
                          stt_error = None\<rparr>
                     | Inr v \<Rightarrow>
                         \<lparr>transcript = PyStr [], language_code = PyStr (lang_code_of lang),
                          stt_error = Some (str_exn (no_attribute v (lit ''get'')))\<rparr>))),
      w\<lparr>calls := calls w @ [stt_request E audio (lang_code_of lang)]\<rparr>)"
  by (simp add: speech_to_text_def external_eq bind_exn_pair Let_def json_def get_method_def
           no_attribute_def
           split: sum.splits exn.splits pyval.splits)

lemma text_to_speech_eq:
  "text_to_speech E w txt lang =
     (Inr (case tts_convert E
                 (calls w @ [TtsConvert (tts_text txt) (lang_code_of lang) (lit ''bulbul:v3'')
                               (dict_get TTS_VOICES lang (lit ''shubh''))]) of
             Inl e \<Rightarrow> \<lparr>audio_bytes = None, tts_error = Some (str_exn e)\<rparr>
           | Inr [] \<Rightarrow>
               \<lparr>audio_bytes = None, tts_error = Some (lit ''list index out of range'')\<rparr>
           | Inr (a # rest) \<Rightarrow>
               (case b64decode E a of
                  Inl e \<Rightarrow> \<lparr>audio_bytes = None, tts_error = Some (str_exn e)\<rparr>
                | Inr decoded \<Rightarrow> \<lparr>audio_bytes = Some decoded, tts_error = None\<rparr>)),
      w\<lparr>calls := calls w @ [TtsConvert (tts_text txt) (lang_code_of lang) (lit ''bulbul:v3'')
                               (dict_get TTS_VOICES lang (lit ''shubh''))]\<rparr>)"
  by (simp add: text_to_speech_def external_eq bind_exn_pair Let_def index_list_def
           split: sum.splits list.splits)


section \<open>The claims\<close>




text \<open>
  Claim C2, as amended. If a stage of \<open>ask\<close> raises an exception \<open>e\<close> after the stages
  before it have returned, then \<open>ask\<close> returns at once, in the world the raising stage
  left (so no later stage makes a call), the dict with \<open>answer\<close> \<open>None\<close>, \<open>passages\<close>
  empty and \<open>error\<close> set: for an \<open>HTTPError\<close> the message \<open>API error:\<close> followed by the
  status code, a dash and the response body text, for any other exception its \<open>str\<close>.
  In particular a reply with a status from 400 to 599 to the query translation, to the
  generation or to the back-translation request ends the run with that \<open>API error\<close>
  message, the request being the last call made. Likewise an exception raised by one of
  these three requests itself, by opening the collection or by the collection query ends
  the run with the dict for that exception, the raising call being the last one made.
\<close>

theorem ask_aborts_at_first_failure:
  "(translate_query E w query (lang_code_of lang) = (Inl e, w1) \<longrightarrow>
      ask E w query lang = (Inr (ask_except lang e), w1)) \<and>
   (translate_query E w query (lang_code_of lang) = (Inr q_en, w1) \<and>
    retrieve_passages E w1 q_en 3 = (Inl e, w2) \<longrightarrow>
      ask E w query lang = (Inr (ask_except lang e), w2)) \<and>
   (translate_query E w query (lang_code_of lang) = (Inr q_en, w1) \<and>
    retrieve_passages E w1 q_en 3 = (Inr ps, w2) \<and>
    generate_answer E w2 q_en ps = (Inl e, w3) \<longrightarrow>
      ask E w query lang = (Inr (ask_except lang e), w3)) \<and>
   (translate_query E w query (lang_code_of lang) = (Inr q_en, w1) \<and>
    retrieve_passages E w1 q_en 3 = (Inr ps, w2) \<and>
    generate_answer E w2 q_en ps = (Inr answer_en, w3) \<and>
    translate_answer E w3 answer_en (lang_code_of lang) = (Inl e, w4) \<longrightarrow>
      ask E w query lang = (Inr (ask_except lang e), w4)) \<and>
   ask_except lang (HTTPError m r) =
     \<lparr>answer = PyNone, passages = [], language = lang, query_en = None,
      error = Some (lit ''API error: '' @ str_int (status_code r) @ [32, em_dash, 32]
                    @ resp_text r)\<rparr> \<and>
   ask_except lang (Exception c m) =
     \<lparr>answer = PyNone, passages = [], language = lang, query_en = None, error = Some m\<rparr> \<and>
   (lang_code_of lang \<noteq> lit ''en-IN'' \<and>
    requests_post E (calls w @ [translate_request E query (lang_code_of lang) (lit ''en-IN'')])
      = Inr resp \<and>
    400 \<le> status_code resp \<and> status_code resp < 600 \<longrightarrow>
      ask E w query lang =
        (Inr \<lparr>answer = PyNone, passages = [], language = lang, query_en = None,
              error = Some (lit ''API error: '' @ str_int (status_code resp) @ [32, em_dash, 32]
                            @ resp_text resp)\<rparr>,
         w\<lparr>calls := calls w @ [translate_request E query (lang_code_of lang) (lit ''en-IN'')]\<rparr>)) \<and>
   (translate_query E w query (lang_code_of lang) = (Inr q_en, w1) \<and>
    retrieve_passages E w1 q_en 3 = (Inr ps, w2) \<and>
    requests_post E (calls w2 @ [chat_request E q_en ps]) = Inr resp \<and>
    400 \<le> status_code resp \<and> status_code resp < 600 \<longrightarrow>
      ask E w query lang =
        (Inr \<lparr>answer = PyNone, passages = [], language = lang, query_en = None,
              error = Some (lit ''API error: '' @ str_int (status_code resp) @ [32, em_dash, 32]
                            @ resp_text resp)\<rparr>,
         w2\<lparr>calls := calls w2 @ [chat_request E q_en ps]\<rparr>)) \<and>
   (translate_query E w query (lang_code_of lang) = (Inr q_en, w1) \<and>
    retrieve_passages E w1 q_en 3 = (Inr ps, w2) \<and>
    generate_answer E w2 q_en ps = (Inr answer_en, w3) \<and>
    lang_code_of lang \<noteq> lit ''en-IN'' \<and>
    requests_post E (calls w3 @ [translate_request E answer_en (lit ''en-IN'') (lang_code_of lang)])
      = Inr resp \<and>
    400 \<le> status_code resp \<and> status_code resp < 600 \<longrightarrow>
      ask E w query lang =
        (Inr \<lparr>answer = PyNone, passages = [], language = lang, query_en = None,
              error = Some (lit ''API error: '' @ str_int (status_code resp) @ [32, em_dash, 32]
                            @ resp_text resp)\<rparr>,
         w3\<lparr>calls := calls w3 @ [translate_request E answer_en (lit ''en-IN'') (lang_code_of lang)]\<rparr>)) \<and>
   (lang_code_of lang \<noteq> lit ''en-IN'' \<and>
    requests_post E (calls w @ [translate_request E query (lang_code_of lang) (lit ''en-IN'')])
      = Inl e \<longrightarrow>
      ask E w query lang =
        (Inr (ask_except lang e),
         w\<lparr>calls := calls w @ [translate_request E query (lang_code_of lang) (lit ''en-IN'')]\<rparr>)) \<and>
   (translate_query E w query (lang_code_of lang) = (Inr q_en, w1) \<and>
    \<not> collection_set w1 \<and>
    chroma_get_collection E (calls w1 @ [ChromaGetCollection DB_PATH COLLECTION]) = Inl e \<longrightarrow>
      ask E w query lang =
        (Inr (ask_except lang e),
         w1\<lparr>calls := calls w1 @ [ChromaGetCollection DB_PATH COLLECTION]\<rparr>)) \<and>
   (translate_query E w query (lang_code_of lang) = (Inr q_en, w1) \<and>
    \<not> collection_set w1 \<and>
    chroma_get_collection E (calls w1 @ [ChromaGetCollection DB_PATH COLLECTION]) = Inr () \<and>
    collection_query E
      (calls w1 @ [ChromaGetCollection DB_PATH COLLECTION, CollectionQuery [q_en] 3]) = Inl e \<longrightarrow>
      ask E w query lang =
        (Inr (ask_except lang e),
         w1\<lparr>calls := calls w1 @ [ChromaGetCollection DB_PATH COLLECTION,
                                   CollectionQuery [q_en] 3],
            collection_set := True\<rparr>)) \<and>
   (translate_query E w query (lang_code_of lang) = (Inr q_en, w1) \<and>
    collection_set w1 \<and>
    collection_query E (calls w1 @ [CollectionQuery [q_en] 3]) = Inl e \<longrightarrow>
      ask E w query lang =
        (Inr (ask_except lang e), w1\<lparr>calls := calls w1 @ [CollectionQuery [q_en] 3]\<rparr>)) \<and>
   (translate_query E w query (lang_code_of lang) = (Inr q_en, w1) \<and>
    retrieve_passages E w1 q_en 3 = (Inr ps, w2) \<and>
    requests_post E (calls w2 @ [chat_request E q_en ps]) = Inl e \<longrightarrow>
      ask E w query lang =
        (Inr (ask_except lang e), w2\<lparr>calls := calls w2 @ [chat_request E q_en ps]\<rparr>)) \<and>
   (translate_query E w query (lang_code_of lang) = (Inr q_en, w1) \<and>
    retrieve_passages E w1 q_en 3 = (Inr ps, w2) \<and>
    generate_answer E w2 q_en ps = (Inr answer_en, w3) \<and>
    lang_code_of lang \<noteq> lit ''en-IN'' \<and>
    requests_post E (calls w3 @ [translate_request E answer_en (lit ''en-IN'') (lang_code_of lang)])
      = Inl e \<longrightarrow>
      ask E w query lang =
        (Inr (ask_except lang e),
         w3\<lparr>calls := calls w3 @ [translate_request E answer_en (lit ''en-IN'') (lang_code_of lang)]\<rparr>))"
proof -
  have stages:
    "translate_query E w query (lang_code_of lang) = (Inl e, w1) \<longrightarrow>
      ask E w query lang = (Inr (ask_except lang e), w1)"
    "translate_query E w query (lang_code_of lang) = (Inr q_en, w1) \<and>
    retrieve_passages E w1 q_en 3 = (Inl e, w2) \<longrightarrow>
      ask E w query lang = (Inr (ask_except lang e), w2)"
    "translate_query E w query (lang_code_of lang) = (Inr q_en, w1) \<and>
    retrieve_passages E w1 q_en 3 = (Inr ps, w2) \<and>
    generate_answer E w2 q_en ps = (Inl e, w3) \<longrightarrow>
      ask E w query lang = (Inr (ask_except lang e), w3)"
    "translate_query E w query (lang_code_of lang) = (Inr q_en, w1) \<and>
    retrieve_passages E w1 q_en 3 = (Inr ps, w2) \<and>
    generate_answer E w2 q_en ps = (Inr answer_en, w3) \<and>
    translate_answer E w3 answer_en (lang_code_of lang) = (Inl e, w4) \<longrightarrow>
      ask E w query lang = (Inr (ask_except lang e), w4)"
    by (simp_all add: ask_def ask_pipeline_eq)
  have handlers:
    "ask_except lang (HTTPError m r) =
     \<lparr>answer = PyNone, passages = [], language = lang, query_en = None,
      error = Some (lit ''API error: '' @ str_int (status_code r) @ [32, em_dash, 32]
                    @ resp_text r)\<rparr>"
    "ask_except lang (Exception c m) =
     \<lparr>answer = PyNone, passages = [], language = lang, query_en = None, error = Some m\<rparr>"
    by (simp_all add: ask_except_def)
  have http1: "ask E w query lang =
        (Inr \<lparr>answer = PyNone, passages = [], language = lang, query_en = None,
              error = Some (lit ''API error: '' @ str_int (status_code resp) @ [32, em_dash, 32]
                            @ resp_text resp)\<rparr>,
         w\<lparr>calls := calls w @ [translate_request E query (lang_code_of lang) (lit ''en-IN'')]\<rparr>)"
    if h: "lang_code_of lang \<noteq> lit ''en-IN''"
      "requests_post E (calls w @ [translate_request E query (lang_code_of lang) (lit ''en-IN'')])
        = Inr resp"
      "400 \<le> status_code resp" "status_code resp < 600"
  proof -
    obtain m' where "translate_text E w query (lang_code_of lang) (lit ''en-IN'') =
         (Inl (HTTPError m' resp),
          w\<lparr>calls := calls w @ [translate_request E query (lang_code_of lang) (lit ''en-IN'')]\<rparr>)"
      using translate_text_http_error [OF h] by blast
    with h(1) show ?thesis
      by (simp add: ask_def ask_pipeline_eq translate_query_def ask_except_http)
  qed
  have http3: "ask E w query lang =
        (Inr \<lparr>answer = PyNone, passages = [], language = lang, query_en = None,
              error = Some (lit ''API error: '' @ str_int (status_code resp) @ [32, em_dash, 32]
                            @ resp_text resp)\<rparr>,
         w2\<lparr>calls := calls w2 @ [chat_request E q_en ps]\<rparr>)"
    if h: "translate_query E w query (lang_code_of lang) = (Inr q_en, w1)"
      "retrieve_passages E w1 q_en 3 = (Inr ps, w2)"
      "requests_post E (calls w2 @ [chat_request E q_en ps]) = Inr resp"
      "400 \<le> status_code resp" "status_code resp < 600"
  proof -
    obtain m' where "generate_answer E w2 q_en ps =
         (Inl (HTTPError m' resp), w2\<lparr>calls := calls w2 @ [chat_request E q_en ps]\<rparr>)"
      using generate_answer_http_error [OF h(3-5)] by blast
    with h(1,2) show ?thesis
      by (simp add: ask_def ask_pipeline_eq ask_except_http)
  qed
  have http4: "ask E w query lang =
        (Inr \<lparr>answer = PyNone, passages = [], language = lang, query_en = None,
              error = Some (lit ''API error: '' @ str_int (status_code resp) @ [32, em_dash, 32]
                            @ resp_text resp)\<rparr>,
         w3\<lparr>calls := calls w3 @ [translate_request E answer_en (lit ''en-IN'') (lang_code_of lang)]\<rparr>)"
    if h: "translate_query E w query (lang_code_of lang) = (Inr q_en, w1)"
      "retrieve_passages E w1 q_en 3 = (Inr ps, w2)"
      "generate_answer E w2 q_en ps = (Inr answer_en, w3)"
      "lang_code_of lang \<noteq> lit ''en-IN''"
      "requests_post E (calls w3 @ [translate_request E answer_en (lit ''en-IN'') (lang_code_of lang)])
        = Inr resp"
      "400 \<le> status_code resp" "status_code resp < 600"
  proof -
    have ne: "lit ''en-IN'' \<noteq> lang_code_of lang"
      using h(4) by simp
    obtain m' where "translate_text E w3 answer_en (lit ''en-IN'') (lang_code_of lang) =
         (Inl (HTTPError m' resp),
          w3\<lparr>calls := calls w3 @ [translate_request E answer_en (lit ''en-IN'') (lang_code_of lang)]\<rparr>)"
      using translate_text_http_error [OF ne h(5-7)] by blast
    with h(1-4) show ?thesis
      by (simp add: ask_def ask_pipeline_eq translate_answer_def ask_except_http)
  qed
  have transport:
    "lang_code_of lang \<noteq> lit ''en-IN'' \<and>
    requests_post E (calls w @ [translate_request E query (lang_code_of lang) (lit ''en-IN'')])
      = Inl e \<longrightarrow>
      ask E w query lang =
        (Inr (ask_except lang e),
         w\<lparr>calls := calls w @ [translate_request E query (lang_code_of lang) (lit ''en-IN'')]\<rparr>)"
    "translate_query E w query (lang_code_of lang) = (Inr q_en, w1) \<and>
    \<not> collection_set w1 \<and>
    chroma_get_collection E (calls w1 @ [ChromaGetCollection DB_PATH COLLECTION]) = Inl e \<longrightarrow>
      ask E w query lang =
        (Inr (ask_except lang e),
         w1\<lparr>calls := calls w1 @ [ChromaGetCollection DB_PATH COLLECTION]\<rparr>)"
    "translate_query E w query (lang_code_of lang) = (Inr q_en, w1) \<and>
    \<not> collection_set w1 \<and>
    chroma_get_collection E (calls w1 @ [ChromaGetCollection DB_PATH COLLECTION]) = Inr () \<and>
    collection_query E
      (calls w1 @ [ChromaGetCollection DB_PATH COLLECTION, CollectionQuery [q_en] 3]) = Inl e \<longrightarrow>
      ask E w query lang =
        (Inr (ask_except lang e),
         w1\<lparr>calls := calls w1 @ [ChromaGetCollection DB_PATH COLLECTION,
                                   CollectionQuery [q_en] 3],
            collection_set := True\<rparr>)"
    "translate_query E w query (lang_code_of lang) = (Inr q_en, w1) \<and>
    collection_set w1 \<and>
    collection_query E (calls w1 @ [CollectionQuery [q_en] 3]) = Inl e \<longrightarrow>
      ask E w query lang =
        (Inr (ask_except lang e), w1\<lparr>calls := calls w1 @ [CollectionQuery [q_en] 3]\<rparr>)"
    "translate_query E w query (lang_code_of lang) = (Inr q_en, w1) \<and>
    retrieve_passages E w1 q_en 3 = (Inr ps, w2) \<and>
    requests_post E (calls w2 @ [chat_request E q_en ps]) = Inl e \<longrightarrow>
      ask E w query lang =
        (Inr (ask_except lang e), w2\<lparr>calls := calls w2 @ [chat_request E q_en ps]\<rparr>)"
    "translate_query E w query (lang_code_of lang) = (Inr q_en, w1) \<and>
    retrieve_passages E w1 q_en 3 = (Inr ps, w2) \<and>
    generate_answer E w2 q_en ps = (Inr answer_en, w3) \<and>
    lang_code_of lang \<noteq> lit ''en-IN'' \<and>
    requests_post E (calls w3 @ [translate_request E answer_en (lit ''en-IN'') (lang_code_of lang)])
      = Inl e \<longrightarrow>
      ask E w query lang =
        (Inr (ask_except lang e),
         w3\<lparr>calls := calls w3 @ [translate_request E answer_en (lit ''en-IN'') (lang_code_of lang)]\<rparr>)"
    by (simp_all add: ask_def ask_pipeline_eq translate_query_def translate_answer_def
          translate_text_eq generate_answer_eq retrieve_passages_def get_collection_def
          external_eq bind_exn_pair)
  from stages handlers http1 http3 http4 transport show ?thesis
    by blast
qed

theorem ask_aborts_at_first_failure_witness:
  "(let E = example_env 1 (Inl (Exception ''ConnectionError'' (lit ''connection refused''))) example_results;
        q = lit ''Ravana kaun tha?'';
        s1 = translate_query E w0 q (lang_code_of (lit ''Hindi''))
    in fst s1 = Inl (Exception ''ConnectionError'' (lit ''connection refused'')) \<and>
       ask E w0 q (lit ''Hindi'') =
         (Inr \<lparr>answer = PyNone, passages = [], language = lit ''Hindi'', query_en = None,
               error = Some (lit ''connection refused'')\<rparr>, snd s1) \<and>
       calls (snd s1) = [translate_request E q (lit ''hi-IN'') (lit ''en-IN'')]) \<and>
   (let E = example_env 2 (Inr ok_response) example_results;
        q = lit ''Who is Hanuman?'';
        s1 = translate_query E w0 q (lang_code_of (lit ''English''));
        s2 = retrieve_passages E (snd s1) (PyStr q) 3
    in fst s1 = Inr (PyStr q) \<and>
       fst s2 = Inl (Exception ''ValueError'' (lit ''index unavailable'')) \<and>
       ask E w0 q (lit ''English'') =
         (Inr \<lparr>answer = PyNone, passages = [], language = lit ''English'', query_en = None,
               error = Some (lit ''index unavailable'')\<rparr>, snd s2) \<and>
       calls (snd s2) = [ChromaGetCollection DB_PATH COLLECTION, CollectionQuery [PyStr q] 3]) \<and>
   (let E = example_env 3 (Inr failing_response) example_results;
        q = lit ''Who is Hanuman?'';
        s1 = translate_query E w0 q (lang_code_of (lit ''English''));
        s2 = retrieve_passages E (snd s1) (PyStr q) 3;
        s3 = generate_answer E (snd s2) (PyStr q) [example_passage]
    in fst s1 = Inr (PyStr q) \<and>
       fst s2 = Inr [example_passage] \<and>
       fst s3 = Inl (HTTPError
                      (lit ''500 Server Error: Internal Server Error for url: https://api.sarvam.ai'')
                      failing_response) \<and>
       ask E w0 q (lit ''English'') =
         (Inr \<lparr>answer = PyNone, passages = [], language = lit ''English'', query_en = None,
               error = Some (lit ''API error: 500'' @ [32, 8212, 32] @ lit ''upstream down'')\<rparr>,
          snd s3) \<and>
       calls (snd s3) = [ChromaGetCollection DB_PATH COLLECTION, CollectionQuery [PyStr q] 3,
                         chat_request E (PyStr q) [example_passage]]) \<and>
   (let E = example_env 5 (Inr failing_response) example_results;
        q = lit ''Ravana kaun tha?'';
        q_en = PyStr (lit ''translated'');
        a_en = lit ''Hanuman is the son of Vayu.'';
        s1 = translate_query E w0 q (lang_code_of (lit ''Hindi''));
        s2 = retrieve_passages E (snd s1) q_en 3;
        s3 = generate_answer E (snd s2) q_en [example_passage];
        s4 = translate_answer E (snd s3) a_en (lang_code_of (lit ''Hindi''))
    in fst s1 = Inr q_en \<and>
       fst s2 = Inr [example_passage] \<and>
       fst s3 = Inr a_en \<and>
       fst s4 = Inl (HTTPError
                      (lit ''500 Server Error: Internal Server Error for url: https://api.sarvam.ai'')
                      failing_response) \<and>
       ask E w0 q (lit ''Hindi'') =
         (Inr \<lparr>answer = PyNone, passages = [], language = lit ''Hindi'', query_en = None,
               error = Some (lit ''API error: 500'' @ [32, 8212, 32] @ lit ''upstream down'')\<rparr>,
          snd s4) \<and>
       calls (snd s4) = [translate_request E q (lit ''hi-IN'') (lit ''en-IN''),
                         ChromaGetCollection DB_PATH COLLECTION, CollectionQuery [q_en] 3,
                         chat_request E q_en [example_passage],
                         translate_request E a_en (lit ''en-IN'') (lit ''hi-IN'')])"
proof -
  have b1:
    "(let E = example_env 1 (Inl (Exception ''ConnectionError'' (lit ''connection refused''))) example_results;
        q = lit ''Ravana kaun tha?'';
        s1 = translate_query E w0 q (lang_code_of (lit ''Hindi''))
    in fst s1 = Inl (Exception ''ConnectionError'' (lit ''connection refused'')) \<and>
       ask E w0 q (lit ''Hindi'') =
         (Inr \<lparr>answer = PyNone, passages = [], language = lit ''Hindi'', query_en = None,
               error = Some (lit ''connection refused'')\<rparr>, snd s1) \<and>
       calls (snd s1) = [translate_request E q (lit ''hi-IN'') (lit ''en-IN'')])"
  proof -
    define E where
      "E = example_env 1 (Inl (Exception ''ConnectionError'' (lit ''connection refused''))) example_results"
    define q where "q = lit ''Ravana kaun tha?''"
    define s1 where "s1 = translate_query E w0 q (lang_code_of (lit ''Hindi''))"
    define e where "e = Exception ''ConnectionError'' (lit ''connection refused'')"
    have f1: "fst s1 = Inl e"
      unfolding s1_def E_def q_def e_def by (simp add: run_defs)
    have c1: "calls (snd s1) = [translate_request E q (lit ''hi-IN'') (lit ''en-IN'')]"
      unfolding s1_def E_def q_def by (simp add: run_defs)
    have h1: "translate_query E w0 q (lang_code_of (lit ''Hindi'')) = (Inl e, snd s1)"
      using f1 unfolding s1_def by (metis prod.collapse)
    have "ask E w0 q (lit ''Hindi'') = (Inr (ask_except (lit ''Hindi'') e), snd s1)"
      using ask_aborts_at_first_failure [of E w0 q "lit ''Hindi''" e "snd s1"] h1 by blast
    then have r: "ask E w0 q (lit ''Hindi'') =
         (Inr \<lparr>answer = PyNone, passages = [], language = lit ''Hindi'', query_en = None,
               error = Some (lit ''connection refused'')\<rparr>, snd s1)"
      by (simp add: ask_except_def e_def)
    have goal: "fst s1 = Inl (Exception ''ConnectionError'' (lit ''connection refused'')) \<and>
       ask E w0 q (lit ''Hindi'') =
         (Inr \<lparr>answer = PyNone, passages = [], language = lit ''Hindi'', query_en = None,
               error = Some (lit ''connection refused'')\<rparr>, snd s1) \<and>
       calls (snd s1) = [translate_request E q (lit ''hi-IN'') (lit ''en-IN'')]"
      using f1 r c1 by (simp add: e_def)
    show ?thesis
      unfolding Let_def by (rule goal [unfolded s1_def E_def q_def])
  qed
  have b3:
   "(let E = example_env 3 (Inr failing_response) example_results;
        q = lit ''Who is Hanuman?'';
        s1 = translate_query E w0 q (lang_code_of (lit ''English''));
        s2 = retrieve_passages E (snd s1) (PyStr q) 3;
        s3 = generate_answer E (snd s2) (PyStr q) [example_passage]
    in fst s1 = Inr (PyStr q) \<and>
       fst s2 = Inr [example_passage] \<and>
       fst s3 = Inl (HTTPError
                      (lit ''500 Server Error: Internal Server Error for url: https://api.sarvam.ai'')
                      failing_response) \<and>
       ask E w0 q (lit ''English'') =
         (Inr \<lparr>answer = PyNone, passages = [], language = lit ''English'', query_en = None,
               error = Some (lit ''API error: 500'' @ [32, 8212, 32] @ lit ''upstream down'')\<rparr>,
          snd s3) \<and>
       calls (snd s3) = [ChromaGetCollection DB_PATH COLLECTION, CollectionQuery [PyStr q] 3,
                         chat_request E (PyStr q) [example_passage]])"
  proof -
    define E where "E = example_env 3 (Inr failing_response) example_results"
    define q where "q = lit ''Who is Hanuman?''"
    define s1 where "s1 = translate_query E w0 q (lang_code_of (lit ''English''))"
    define s2 where "s2 = retrieve_passages E (snd s1) (PyStr q) 3"
    define s3 where "s3 = generate_answer E (snd s2) (PyStr q) [example_passage]"
    define e where "e = HTTPError
                      (lit ''500 Server Error: Internal Server Error for url: https://api.sarvam.ai'')
                      failing_response"
    have f1: "fst s1 = Inr (PyStr q)"
      unfolding s1_def E_def q_def by (simp add: run_defs)
    have f2: "fst s2 = Inr [example_passage]"
      unfolding s2_def s1_def E_def q_def by (simp add: run_defs)
    have f3: "fst s3 = Inl e"
      unfolding s3_def s2_def s1_def E_def q_def e_def by (simp add: run_defs)
    have c3: "calls (snd s3) = [ChromaGetCollection DB_PATH COLLECTION, CollectionQuery [PyStr q] 3,
                         chat_request E (PyStr q) [example_passage]]"
      unfolding s3_def s2_def s1_def E_def q_def
      by (simp add: generate_answer_calls) (simp add: run_defs)
    have h1: "translate_query E w0 q (lang_code_of (lit ''English'')) = (Inr (PyStr q), snd s1)"
      using f1 unfolding s1_def by (metis prod.collapse)
    have h2: "retrieve_passages E (snd s1) (PyStr q) 3 = (Inr [example_passage], snd s2)"
      using f2 unfolding s2_def by (metis prod.collapse)
    have h3: "generate_answer E (snd s2) (PyStr q) [example_passage] = (Inl e, snd s3)"
      using f3 unfolding s3_def by (metis prod.collapse)
    have "ask E w0 q (lit ''English'') = (Inr (ask_except (lit ''English'') e), snd s3)"
      using ask_aborts_at_first_failure
              [of E w0 q "lit ''English''" e "snd s1" "PyStr q" "snd s2" "[example_passage]" "snd s3"]
            h1 h2 h3
      by blast
    moreover have "ask_except (lit ''English'') e =
        \<lparr>answer = PyNone, passages = [], language = lit ''English'', query_en = None,
         error = Some (lit ''API error: 500'' @ [32, 8212, 32] @ lit ''upstream down'')\<rparr>"
      by (simp add: ask_except_def e_def run_defs)
    ultimately have r: "ask E w0 q (lit ''English'') =
         (Inr \<lparr>answer = PyNone, passages = [], language = lit ''English'', query_en = None,
               error = Some (lit ''API error: 500'' @ [32, 8212, 32] @ lit ''upstream down'')\<rparr>,
          snd s3)"
      by simp
    have goal: "fst s1 = Inr (PyStr q) \<and>
       fst s2 = Inr [example_passage] \<and>
       fst s3 = Inl (HTTPError
                      (lit ''500 Server Error: Internal Server Error for url: https://api.sarvam.ai'')
                      failing_response) \<and>
       ask E w0 q (lit ''English'') =
         (Inr \<lparr>answer = PyNone, passages = [], language = lit ''English'', query_en = None,
               error = Some (lit ''API error: 500'' @ [32, 8212, 32] @ lit ''upstream down'')\<rparr>,
          snd s3) \<and>
       calls (snd s3) = [ChromaGetCollection DB_PATH COLLECTION, CollectionQuery [PyStr q] 3,
                         chat_request E (PyStr q) [example_passage]]"
      using f1 f2 f3 r c3 by (simp add: e_def)
    show ?thesis
      unfolding Let_def by (rule goal [unfolded s3_def s2_def s1_def E_def q_def])
  qed
  have b2:
   "(let E = example_env 2 (Inr ok_response) example_results;
        q = lit ''Who is Hanuman?'';
        s1 = translate_query E w0 q (lang_code_of (lit ''English''));
        s2 = retrieve_passages E (snd s1) (PyStr q) 3
    in fst s1 = Inr (PyStr q) \<and>
       fst s2 = Inl (Exception ''ValueError'' (lit ''index unavailable'')) \<and>
       ask E w0 q (lit ''English'') =
         (Inr \<lparr>answer = PyNone, passages = [], language = lit ''English'', query_en = None,
               error = Some (lit ''index unavailable'')\<rparr>, snd s2) \<and>
       calls (snd s2) = [ChromaGetCollection DB_PATH COLLECTION, CollectionQuery [PyStr q] 3])"
  proof -
    define E where "E = example_env 2 (Inr ok_response) example_results"
    define q where "q = lit ''Who is Hanuman?''"
    define s1 where "s1 = translate_query E w0 q (lang_code_of (lit ''English''))"
    define s2 where "s2 = retrieve_passages E (snd s1) (PyStr q) 3"
    define e where "e = Exception ''ValueError'' (lit ''index unavailable'')"
    have f1: "fst s1 = Inr (PyStr q)"
      unfolding s1_def E_def q_def by (simp add: run_defs)
    have f2: "fst s2 = Inl e"
      unfolding s2_def s1_def E_def q_def e_def by (simp add: run_defs)
    have c2: "calls (snd s2) = [ChromaGetCollection DB_PATH COLLECTION, CollectionQuery [PyStr q] 3]"
      unfolding s2_def s1_def E_def q_def by (simp add: run_defs)
    have h1: "translate_query E w0 q (lang_code_of (lit ''English'')) = (Inr (PyStr q), snd s1)"
      using f1 unfolding s1_def by (metis prod.collapse)
    have h2: "retrieve_passages E (snd s1) (PyStr q) 3 = (Inl e, snd s2)"
      using f2 unfolding s2_def by (metis prod.collapse)
    have "ask E w0 q (lit ''English'') = (Inr (ask_except (lit ''English'') e), snd s2)"
      using ask_aborts_at_first_failure
              [of E w0 q "lit ''English''" e "snd s1" "PyStr q" "snd s2"]
            h1 h2
      by blast
    then have r: "ask E w0 q (lit ''English'') =
         (Inr \<lparr>answer = PyNone, passages = [], language = lit ''English'', query_en = None,
               error = Some (lit ''index unavailable'')\<rparr>, snd s2)"
      by (simp add: ask_except_def e_def)
    have goal: "fst s1 = Inr (PyStr q) \<and>
       fst s2 = Inl (Exception ''ValueError'' (lit ''index unavailable'')) \<and>
       ask E w0 q (lit ''English'') =
         (Inr \<lparr>answer = PyNone, passages = [], language = lit ''English'', query_en = None,
               error = Some (lit ''index unavailable'')\<rparr>, snd s2) \<and>
       calls (snd s2) = [ChromaGetCollection DB_PATH COLLECTION, CollectionQuery [PyStr q] 3]"
      using f1 f2 r c2 by (simp add: e_def)
    show ?thesis
      unfolding Let_def by (rule goal [unfolded s2_def s1_def E_def q_def])
  qed
  have b4:
   "(let E = example_env 5 (Inr failing_response) example_results;
        q = lit ''Ravana kaun tha?'';
        q_en = PyStr (lit ''translated'');
        a_en = lit ''Hanuman is the son of Vayu.'';
        s1 = translate_query E w0 q (lang_code_of (lit ''Hindi''));
        s2 = retrieve_passages E (snd s1) q_en 3;
        s3 = generate_answer E (snd s2) q_en [example_passage];
        s4 = translate_answer E (snd s3) a_en (lang_code_of (lit ''Hindi''))
    in fst s1 = Inr q_en \<and>
       fst s2 = Inr [example_passage] \<and>
       fst s3 = Inr a_en \<and>
       fst s4 = Inl (HTTPError
                      (lit ''500 Server Error: Internal Server Error for url: https://api.sarvam.ai'')
                      failing_response) \<and>
       ask E w0 q (lit ''Hindi'') =
         (Inr \<lparr>answer = PyNone, passages = [], language = lit ''Hindi'', query_en = None,
               error = Some (lit ''API error: 500'' @ [32, 8212, 32] @ lit ''upstream down'')\<rparr>,
          snd s4) \<and>
       calls (snd s4) = [translate_request E q (lit ''hi-IN'') (lit ''en-IN''),
                         ChromaGetCollection DB_PATH COLLECTION, CollectionQuery [q_en] 3,
                         chat_request E q_en [example_passage],
                         translate_request E a_en (lit ''en-IN'') (lit ''hi-IN'')])"
  proof -
    define E where "E = example_env 5 (Inr failing_response) example_results"
    define q where "q = lit ''Ravana kaun tha?''"
    define q_en where "q_en = PyStr (lit ''translated'')"
    define a_en where "a_en = lit ''Hanuman is the son of Vayu.''"
    define s1 where "s1 = translate_query E w0 q (lang_code_of (lit ''Hindi''))"
    define s2 where "s2 = retrieve_passages E (snd s1) q_en 3"
    define s3 where "s3 = generate_answer E (snd s2) q_en [example_passage]"
    define s4 where "s4 = translate_answer E (snd s3) a_en (lang_code_of (lit ''Hindi''))"
    define e where "e = HTTPError
                      (lit ''500 Server Error: Internal Server Error for url: https://api.sarvam.ai'')
                      failing_response"
    have f1: "fst s1 = Inr q_en"
      unfolding s1_def E_def q_def q_en_def by (simp add: run_defs)
    have c1: "calls (snd s1) = [translate_request E q (lit ''hi-IN'') (lit ''en-IN'')]"
      unfolding s1_def E_def q_def by (simp add: run_defs)
    have k1: "collection_set (snd s1) = False"
      unfolding s1_def E_def q_def by (simp add: run_defs)
    have f2: "fst s2 = Inr [example_passage]"
      unfolding s2_def by (simp add: retrieve_passages_def get_collection_def external_eq
          bind_exn_pair c1 k1) (simp add: E_def run_defs)
    have c2: "calls (snd s2) = [translate_request E q (lit ''hi-IN'') (lit ''en-IN''),
                         ChromaGetCollection DB_PATH COLLECTION, CollectionQuery [q_en] 3]"
      unfolding s2_def by (simp add: retrieve_passages_def get_collection_def external_eq
          bind_exn_pair c1 k1) (simp add: E_def run_defs)
    have f3: "fst s3 = Inr a_en"
      unfolding s3_def by (simp add: generate_answer_def external_eq bind_exn_pair c2)
         (simp add: E_def a_en_def run_defs)
    have c3: "calls (snd s3) = [translate_request E q (lit ''hi-IN'') (lit ''en-IN''),
                         ChromaGetCollection DB_PATH COLLECTION, CollectionQuery [q_en] 3,
                         chat_request E q_en [example_passage]]"
      unfolding s3_def by (simp add: generate_answer_calls c2)
    have hi: "lang_code_of (lit ''Hindi'') = lit ''hi-IN''" "lit ''hi-IN'' \<noteq> lit ''en-IN''"
      by (simp_all add: run_defs)
    have f4: "fst s4 = Inl e"
      unfolding s4_def by (simp add: translate_answer_def translate_text_def hi external_eq
          bind_exn_pair c3) (simp add: E_def e_def run_defs)
    have c4: "calls (snd s4) = [translate_request E q (lit ''hi-IN'') (lit ''en-IN''),
                         ChromaGetCollection DB_PATH COLLECTION, CollectionQuery [q_en] 3,
                         chat_request E q_en [example_passage],
                         translate_request E a_en (lit ''en-IN'') (lit ''hi-IN'')]"
      unfolding s4_def using hi by (simp add: translate_answer_def translate_text_calls c3)
    have h1: "translate_query E w0 q (lang_code_of (lit ''Hindi'')) = (Inr q_en, snd s1)"
      using f1 unfolding s1_def by (metis prod.collapse)
    have h2: "retrieve_passages E (snd s1) q_en 3 = (Inr [example_passage], snd s2)"
      using f2 unfolding s2_def by (metis prod.collapse)
    have h3: "generate_answer E (snd s2) q_en [example_passage] = (Inr a_en, snd s3)"
      using f3 unfolding s3_def by (metis prod.collapse)
    have h4: "translate_answer E (snd s3) a_en (lang_code_of (lit ''Hindi'')) = (Inl e, snd s4)"
      using f4 unfolding s4_def by (metis prod.collapse)
    have "ask E w0 q (lit ''Hindi'') = (Inr (ask_except (lit ''Hindi'') e), snd s4)"
      using ask_aborts_at_first_failure
              [of E w0 q "lit ''Hindi''" e "snd s1" q_en "snd s2" "[example_passage]" "snd s3"
                  a_en "snd s4"]
            h1 h2 h3 h4
      by blast
    moreover have "ask_except (lit ''Hindi'') e =
        \<lparr>answer = PyNone, passages = [], language = lit ''Hindi'', query_en = None,
         error = Some (lit ''API error: 500'' @ [32, 8212, 32] @ lit ''upstream down'')\<rparr>"
      by (simp add: ask_except_def e_def run_defs)
    ultimately have r: "ask E w0 q (lit ''Hindi'') =
         (Inr \<lparr>answer = PyNone, passages = [], language = lit ''Hindi'', query_en = None,
               error = Some (lit ''API error: 500'' @ [32, 8212, 32] @ lit ''upstream down'')\<rparr>,
          snd s4)"
      by simp
    have goal: "fst s1 = Inr q_en \<and>
       fst s2 = Inr [example_passage] \<and>
       fst s3 = Inr a_en \<and>
       fst s4 = Inl (HTTPError
                      (lit ''500 Server Error: Internal Server Error for url: https://api.sarvam.ai'')
                      failing_response) \<and>
       ask E w0 q (lit ''Hindi'') =
         (Inr \<lparr>answer = PyNone, passages = [], language = lit ''Hindi'', query_en = None,
               error = Some (lit ''API error: 500'' @ [32, 8212, 32] @ lit ''upstream down'')\<rparr>,
          snd s4) \<and>
       calls (snd s4) = [translate_request E q (lit ''hi-IN'') (lit ''en-IN''),
                         ChromaGetCollection DB_PATH COLLECTION, CollectionQuery [q_en] 3,
                         chat_request E q_en [example_passage],
                         translate_request E a_en (lit ''en-IN'') (lit ''hi-IN'')]"
      using f1 f2 f3 f4 r c4 by (simp add: e_def)
    show ?thesis
      unfolding Let_def
      by (rule goal [unfolded s4_def s3_def s2_def s1_def E_def q_def q_en_def a_en_def])
  qed
  show ?thesis
    by (rule conjI [OF b1 conjI [OF b2 conjI [OF b3 b4]]])
qed

text \<open>
  The claim as stated fails where a stage goes wrong without raising. A generation reply
  with status 302 passes \<open>raise_for_status\<close>, and \<open>ask\<close> returns an answer with \<open>error\<close>
  \<open>None\<close>. A query-translation reply whose \<open>translated_text\<close> is JSON \<open>null\<close> raises
  nothing either: all later stages run, five calls are made, and \<open>error\<close> is \<open>None\<close>.
\<close>

theorem ask_goes_on_after_bad_reply:
  "fst (ask (example_env 3 (Inr found_response) example_results) w0 (lit ''Who is Hanuman?'')
         (lit ''English'')) =
     Inr \<lparr>answer = PyStr (lit ''Hanuman is the son of Vayu.''), passages = [example_passage],
          language = lit ''English'', query_en = Some (PyStr (lit ''Who is Hanuman?'')),
          error = None\<rparr> \<and>
   ask (example_env 1 (Inr null_response) example_results) w0 (lit ''Ravana kaun tha?'')
     (lit ''Hindi'') =
     (Inr \<lparr>answer = PyStr (lit ''translated''), passages = [example_passage],
           language = lit ''Hindi'', query_en = Some PyNone, error = None\<rparr>,
      \<lparr>calls =
         [translate_request (example_env 1 (Inr null_response) example_results)
            (lit ''Ravana kaun tha?'') (lit ''hi-IN'') (lit ''en-IN''),
          ChromaGetCollection DB_PATH COLLECTION,
          CollectionQuery [PyNone] 3,
          chat_request (example_env 1 (Inr null_response) example_results) PyNone [example_passage],
          translate_request (example_env 1 (Inr null_response) example_results)
            (lit ''Hanuman is the son of Vayu.'') (lit ''en-IN'') (lit ''hi-IN'')],
       collection_set = True\<rparr>)"
proof -
  have a: "fst (ask (example_env 3 (Inr found_response) example_results) w0 (lit ''Who is Hanuman?'')
         (lit ''English'')) =
     Inr \<lparr>answer = PyStr (lit ''Hanuman is the son of Vayu.''), passages = [example_passage],
          language = lit ''English'', query_en = Some (PyStr (lit ''Who is Hanuman?'')),
          error = None\<rparr>"
    by (simp add: ask_def ask_pipeline_def run_defs found_response_def)
  have b: "ask (example_env 1 (Inr null_response) example_results) w0 (lit ''Ravana kaun tha?'')
     (lit ''Hindi'') =
     (Inr \<lparr>answer = PyStr (lit ''translated''), passages = [example_passage],
           language = lit ''Hindi'', query_en = Some PyNone, error = None\<rparr>,
      \<lparr>calls =
         [translate_request (example_env 1 (Inr null_response) example_results)
            (lit ''Ravana kaun tha?'') (lit ''hi-IN'') (lit ''en-IN''),
          ChromaGetCollection DB_PATH COLLECTION,
          CollectionQuery [PyNone] 3,
          chat_request (example_env 1 (Inr null_response) example_results) PyNone [example_passage],
          translate_request (example_env 1 (Inr null_response) example_results)
            (lit ''Hanuman is the son of Vayu.'') (lit ''en-IN'') (lit ''hi-IN'')],
       collection_set = True\<rparr>)"
    by (simp add: ask_def ask_pipeline_def run_defs)
  from a b show ?thesis ..
qed

text \<open>
  Claim C3. When \<open>source_lang\<close> equals \<open>target_lang\<close>, \<open>translate_text\<close> returns its
  input text unchanged and makes no network call: the world, and with it the log of
  calls, is the one it was given.
\<close>

theorem translate_text_same_language:
  "source_lang = target_lang \<Longrightarrow>
   translate_text E w txt source_lang target_lang = (Inr (PyStr txt), w)"
  by (simp add: translate_text_def)

theorem translate_text_same_language_witness:
  "lit ''en-IN'' = lit ''en-IN'' \<and>
   translate_text (example_env 1 (Inr failing_response) example_results) w0
     (lit ''Who is Hanuman?'') (lit ''en-IN'') (lit ''en-IN'')
   = (Inr (PyStr (lit ''Who is Hanuman?'')), w0)"
  using translate_text_same_language
          [of "lit ''en-IN''" "lit ''en-IN''"
              "example_env 1 (Inr failing_response) example_results" w0 "lit ''Who is Hanuman?''"]
  by simp

text \<open>
  Claim C4. \<open>ask\<close> runs its pipeline with the language code that the table
  \<open>LANGUAGE_CODES\<close> gives for the display name: each of the ten supported names resolves
  to its code, and a name that is not in the table resolves to English's code
  \<open>en-IN\<close>, with which the pipeline runs as usual.
\<close>

theorem ask_resolves_language:
  "lang_code_of (lit ''English'') = lit ''en-IN'' \<and>
   lang_code_of (lit ''Hindi'') = lit ''hi-IN'' \<and>
   lang_code_of (lit ''Tamil'') = lit ''ta-IN'' \<and>
   lang_code_of (lit ''Telugu'') = lit ''te-IN'' \<and>
   lang_code_of (lit ''Kannada'') = lit ''kn-IN'' \<and>
   lang_code_of (lit ''Malayalam'') = lit ''ml-IN'' \<and>
   lang_code_of (lit ''Bengali'') = lit ''bn-IN'' \<and>
   lang_code_of (lit ''Marathi'') = lit ''mr-IN'' \<and>
   lang_code_of (lit ''Gujarati'') = lit ''gu-IN'' \<and>
   lang_code_of (lit ''Punjabi'') = lit ''pa-IN'' \<and>
   (lang \<notin> set (map fst LANGUAGE_CODES) \<longrightarrow> lang_code_of lang = lit ''en-IN'') \<and>
   ask E w query lang = ask_pipeline E w query lang (lang_code_of lang)"
proof -
  have known:
    "lang_code_of (lit ''English'') = lit ''en-IN''"
    "lang_code_of (lit ''Hindi'') = lit ''hi-IN''"
    "lang_code_of (lit ''Tamil'') = lit ''ta-IN''"
    "lang_code_of (lit ''Telugu'') = lit ''te-IN''"
    "lang_code_of (lit ''Kannada'') = lit ''kn-IN''"
    "lang_code_of (lit ''Malayalam'') = lit ''ml-IN''"
    "lang_code_of (lit ''Bengali'') = lit ''bn-IN''"
    "lang_code_of (lit ''Marathi'') = lit ''mr-IN''"
    "lang_code_of (lit ''Gujarati'') = lit ''gu-IN''"
    "lang_code_of (lit ''Punjabi'') = lit ''pa-IN''"
    by (simp_all add: lang_code_of_def dict_get_def LANGUAGE_CODES_def lit_def)
  have unknown: "lang \<notin> set (map fst LANGUAGE_CODES) \<longrightarrow> lang_code_of lang = lit ''en-IN''"
    by (simp add: lang_code_of_def dict_get_absent)
  show ?thesis
    using known unknown by (simp add: ask_def)
qed

theorem ask_resolves_language_witness:
  "lit ''Sanskrit'' \<notin> set (map fst LANGUAGE_CODES) \<and>
   lang_code_of (lit ''Sanskrit'') = lit ''en-IN'' \<and>
   ask (example_env 0 (Inr ok_response) example_results) w0 (lit ''Who is Rama?'') (lit ''Sanskrit'')
     = ask_pipeline (example_env 0 (Inr ok_response) example_results) w0 (lit ''Who is Rama?'')
         (lit ''Sanskrit'') (lit ''en-IN'')"
proof -
  have absent: "lit ''Sanskrit'' \<notin> set (map fst LANGUAGE_CODES)"
    by (simp add: LANGUAGE_CODES_def lit_def)
  from ask_resolves_language
         [of "lit ''Sanskrit''" "example_env 0 (Inr ok_response) example_results" w0
             "lit ''Who is Rama?''"]
  show ?thesis using absent by simp
qed

text \<open>
  Claim C5. \<open>text_to_speech\<close> makes exactly one call to the Synthesis Service. A text
  of at most 2500 characters is submitted as it is; a longer text is submitted as its
  first 2490 characters followed by the three-character marker \<open>...\<close>.
\<close>

theorem text_to_speech_truncates:
  "(length txt \<le> 2500 \<longrightarrow>
      calls (snd (text_to_speech E w txt lang)) =
        calls w @ [TtsConvert txt (lang_code_of lang) (lit ''bulbul:v3'')
                     (dict_get TTS_VOICES lang (lit ''shubh''))]) \<and>
   (length txt > 2500 \<longrightarrow>
      calls (snd (text_to_speech E w txt lang)) =
        calls w @ [TtsConvert (take 2490 txt @ lit ''...'') (lang_code_of lang) (lit ''bulbul:v3'')
                     (dict_get TTS_VOICES lang (lit ''shubh''))]) \<and>
   length (lit ''...'') = 3"
  by (simp add: tts_calls tts_text_def lit_def)

theorem text_to_speech_truncates_witness:
  "length (lit ''Jai Shri Ram'') \<le> 2500 \<and>
   calls (snd (text_to_speech (example_env 0 (Inr ok_response) example_results) w0
                 (lit ''Jai Shri Ram'') (lit ''Tamil''))) =
     [TtsConvert (lit ''Jai Shri Ram'') (lit ''ta-IN'') (lit ''bulbul:v3'') (lit ''abhilasha'')] \<and>
   length (replicate 2501 (97::nat)) > 2500 \<and>
   calls (snd (text_to_speech (example_env 0 (Inr ok_response) example_results) w0
                 (replicate 2501 97) (lit ''Sanskrit''))) =
     [TtsConvert (replicate 2490 97 @ lit ''...'') (lit ''en-IN'') (lit ''bulbul:v3'') (lit ''shubh'')]"
proof -
  have codes: "lang_code_of (lit ''Tamil'') = lit ''ta-IN''"
    "lang_code_of (lit ''Sanskrit'') = lit ''en-IN''"
    "dict_get TTS_VOICES (lit ''Tamil'') (lit ''shubh'') = lit ''abhilasha''"
    "dict_get TTS_VOICES (lit ''Sanskrit'') (lit ''shubh'') = lit ''shubh''"
    by (simp_all add: lang_code_of_def dict_get_def LANGUAGE_CODES_def TTS_VOICES_def lit_def)
  have short: "length (lit ''Jai Shri Ram'') \<le> 2500"
    by (simp add: lit_def)
  from text_to_speech_truncates
         [of "lit ''Jai Shri Ram''" "example_env 0 (Inr ok_response) example_results" w0
             "lit ''Tamil''"]
       text_to_speech_truncates
         [of "replicate 2501 97" "example_env 0 (Inr ok_response) example_results" w0
             "lit ''Sanskrit''"]
  show ?thesis using short by (simp add: codes w0_def)
qed

text \<open>
  Claim C6, as amended. When the language resolves to \<open>en-IN\<close>, \<open>ask\<close> makes no call to
  the Translation Service: the calls it adds to the log contain none. When retrieval
  and generation return, \<open>ask\<close> returns the generated answer with \<open>error\<close> \<open>None\<close> and
  with \<open>query_en\<close> equal to the original query unchanged. When one of them raises,
  \<open>ask\<close> returns the dict of the \<open>except\<close> clauses, which has an error message and no
  \<open>query_en\<close> field.
\<close>

theorem ask_english_without_translation:
  assumes en: "lang_code_of lang = lit ''en-IN''"
  shows "(\<exists>new. calls (snd (ask E w query lang)) = calls w @ new \<and> translation_calls new = []) \<and>
         (retrieve_passages E w (PyStr query) 3 = (Inl e, w2) \<longrightarrow>
            ask E w query lang = (Inr (ask_except lang e), w2)) \<and>
         (retrieve_passages E w (PyStr query) 3 = (Inr ps, w2) \<and>
          generate_answer E w2 (PyStr query) ps = (Inl e, w3) \<longrightarrow>
            ask E w query lang = (Inr (ask_except lang e), w3)) \<and>
         (retrieve_passages E w (PyStr query) 3 = (Inr ps, w2) \<and>
          generate_answer E w2 (PyStr query) ps = (Inr answer_en, w3) \<longrightarrow>
            ask E w query lang =
              (Inr \<lparr>answer = PyStr answer_en, passages = ps, language = lang,
                    query_en = Some (PyStr query), error = None\<rparr>, w3)) \<and>
         query_en (ask_except lang e) = None \<and> error (ask_except lang e) \<noteq> None"
proof -
  have tq: "translate_query E w query (lang_code_of lang) = (Inr (PyStr query), w)"
    using en by (simp add: translate_query_def)
  have ta: "translate_answer E w' a (lang_code_of lang) = (Inr (PyStr a), w')" for w' a
    using en by (simp add: translate_answer_def)
  obtain r1 w2' where s2: "retrieve_passages E w (PyStr query) 3 = (r1, w2')"
    by (cases "retrieve_passages E w (PyStr query) 3")
  obtain new2 where c2: "calls w2' = calls w @ new2" "translation_calls new2 = []"
    using retrieve_passages_calls [of E w "PyStr query" 3] s2 by auto
  have log: "\<exists>new. calls (snd (ask E w query lang)) = calls w @ new \<and> translation_calls new = []"
  proof (cases r1)
    case (Inl e')
    with tq s2 c2 show ?thesis
      by (simp add: ask_def ask_pipeline_eq)
  next
    case (Inr ps')
    obtain r3 w3' where s3: "generate_answer E w2' (PyStr query) ps' = (r3, w3')"
      by (cases "generate_answer E w2' (PyStr query) ps'")
    have c3: "calls w3' = calls w @ (new2 @ [chat_request E (PyStr query) ps'])"
      using generate_answer_calls [of E w2' "PyStr query" ps'] s3 c2 by simp
    have t3: "translation_calls (new2 @ [chat_request E (PyStr query) ps']) = []"
      using c2 by simp
    from Inr tq ta s2 s3 c3 t3 show ?thesis
      by (cases r3) (auto simp: ask_def ask_pipeline_eq)
  qed
  have paths:
    "retrieve_passages E w (PyStr query) 3 = (Inl e, w2) \<longrightarrow>
            ask E w query lang = (Inr (ask_except lang e), w2)"
    "retrieve_passages E w (PyStr query) 3 = (Inr ps, w2) \<and>
          generate_answer E w2 (PyStr query) ps = (Inl e, w3) \<longrightarrow>
            ask E w query lang = (Inr (ask_except lang e), w3)"
    "retrieve_passages E w (PyStr query) 3 = (Inr ps, w2) \<and>
          generate_answer E w2 (PyStr query) ps = (Inr answer_en, w3) \<longrightarrow>
            ask E w query lang =
              (Inr \<lparr>answer = PyStr answer_en, passages = ps, language = lang,
                    query_en = Some (PyStr query), error = None\<rparr>, w3)"
    using tq ta by (simp_all add: ask_def ask_pipeline_eq)
  have err: "query_en (ask_except lang e) = None" "error (ask_except lang e) \<noteq> None"
    using ask_except_fields [of lang e] by auto
  from log paths err show ?thesis
    by blast
qed

theorem ask_english_without_translation_witness:
  "(let E = example_env 0 (Inr ok_response) example_results;
        q = lit ''Who is Hanuman?'';
        a_en = lit ''Hanuman is the son of Vayu.'';
        s2 = retrieve_passages E w0 (PyStr q) 3;
        s3 = generate_answer E (snd s2) (PyStr q) [example_passage]
    in lang_code_of (lit ''English'') = lit ''en-IN'' \<and>
       fst s2 = Inr [example_passage] \<and>
       fst s3 = Inr a_en \<and>
       ask E w0 q (lit ''English'') =
         (Inr \<lparr>answer = PyStr a_en, passages = [example_passage], language = lit ''English'',
               query_en = Some (PyStr q), error = None\<rparr>, snd s3) \<and>
       calls (snd s3) = [ChromaGetCollection DB_PATH COLLECTION, CollectionQuery [PyStr q] 3,
                         chat_request E (PyStr q) [example_passage]] \<and>
       translation_calls (calls (snd s3)) = [])"
proof -
  define E where "E = example_env 0 (Inr ok_response) example_results"
  define q where "q = lit ''Who is Hanuman?''"
  define a_en where "a_en = lit ''Hanuman is the son of Vayu.''"
  define s2 where "s2 = retrieve_passages E w0 (PyStr q) 3"
  define s3 where "s3 = generate_answer E (snd s2) (PyStr q) [example_passage]"
  have en: "lang_code_of (lit ''English'') = lit ''en-IN''"
    by (simp add: run_defs)
  have f2: "fst s2 = Inr [example_passage]"
    unfolding s2_def E_def q_def by (simp add: run_defs)
  have c2: "calls (snd s2) = [ChromaGetCollection DB_PATH COLLECTION, CollectionQuery [PyStr q] 3]"
    unfolding s2_def E_def q_def by (simp add: run_defs)
  have f3: "fst s3 = Inr a_en"
    unfolding s3_def by (simp add: generate_answer_def external_eq bind_exn_pair c2)
       (simp add: E_def a_en_def run_defs)
  have c3: "calls (snd s3) = [ChromaGetCollection DB_PATH COLLECTION, CollectionQuery [PyStr q] 3,
                         chat_request E (PyStr q) [example_passage]]"
    unfolding s3_def by (simp add: generate_answer_calls c2)
  have h2: "retrieve_passages E w0 (PyStr q) 3 = (Inr [example_passage], snd s2)"
    using f2 unfolding s2_def by (metis prod.collapse)
  have h3: "generate_answer E (snd s2) (PyStr q) [example_passage] = (Inr a_en, snd s3)"
    using f3 unfolding s3_def by (metis prod.collapse)
  have r: "ask E w0 q (lit ''English'') =
         (Inr \<lparr>answer = PyStr a_en, passages = [example_passage], language = lit ''English'',
               query_en = Some (PyStr q), error = None\<rparr>, snd s3)"
    using ask_english_without_translation
            [where E = E and w = w0 and query = q and lang = "lit ''English''"
               and ps = "[example_passage]" and ?w2.0 = "snd s2" and answer_en = a_en
               and ?w3.0 = "snd s3", OF en]
          h2 h3
    by blast
  have t: "translation_calls (calls (snd s3)) = []"
    by (simp add: c3 translation_calls_def chat_request_def lit_def)
  have goal: "lang_code_of (lit ''English'') = lit ''en-IN'' \<and>
       fst s2 = Inr [example_passage] \<and>
       fst s3 = Inr a_en \<and>
       ask E w0 q (lit ''English'') =
         (Inr \<lparr>answer = PyStr a_en, passages = [example_passage], language = lit ''English'',
               query_en = Some (PyStr q), error = None\<rparr>, snd s3) \<and>
       calls (snd s3) = [ChromaGetCollection DB_PATH COLLECTION, CollectionQuery [PyStr q] 3,
                         chat_request E (PyStr q) [example_passage]] \<and>
       translation_calls (calls (snd s3)) = []"
    using en f2 f3 r c3 t by simp
  show ?thesis
    unfolding Let_def by (rule goal [unfolded s3_def s2_def E_def q_def a_en_def])
qed

text \<open>
  The claim as stated fails on the error paths: with language \<open>English\<close> and a
  generation reply of status 500, the dict that \<open>ask\<close> returns has no \<open>query_en\<close> field.
\<close>

theorem ask_english_error_without_query_en:
  "fst (ask (example_env 3 (Inr failing_response) example_results) w0 (lit ''Who is Hanuman?'')
         (lit ''English'')) =
     Inr \<lparr>answer = PyNone, passages = [], language = lit ''English'', query_en = None,
          error = Some (lit ''API error: 500'' @ [32, 8212, 32] @ lit ''upstream down'')\<rparr>"
  by (simp add: ask_def ask_pipeline_def ask_except_def run_defs)

text \<open>
  Claim C7, as amended. \<open>speech_to_text\<close> and \<open>text_to_speech\<close>, called with values of
  their annotated types, never raise: each makes its one call and returns a result.
  \<open>speech_to_text\<close> returns an empty transcript, the resolved language code and an
  error message when the request raises, when the reply has a status from 400 to 599
  (\<open>STT error:\<close>, the status code, a dash, the body text), when the reply is not JSON
  and when its JSON is not an object; otherwise it returns the reply's \<open>transcript\<close> and
  \<open>language_code\<close> (with their defaults) and \<open>error\<close> \<open>None\<close>. \<open>text_to_speech\<close> returns no
  audio and an error message when the SDK call raises, when the reply holds no audio
  and when the audio does not decode; otherwise the decoded bytes and \<open>error\<close> \<open>None\<close>.
  \<open>translate_text\<close> has no handler of its own: when the languages differ, an exception
  of the request, or the \<open>HTTPError\<close> of a 4xx or 5xx reply, reaches the caller; \<open>ask\<close>
  and the app catch it.
\<close>

theorem adapters_exception_handling:
  "(\<exists>r. speech_to_text E w audio lang =
          (Inr r, w\<lparr>calls := calls w @ [stt_request E audio (lang_code_of lang)]\<rparr>)) \<and>
   (requests_post E (calls w @ [stt_request E audio (lang_code_of lang)]) = Inl (Exception cls m) \<longrightarrow>
      fst (speech_to_text E w audio lang) =
        Inr \<lparr>transcript = PyStr [], language_code = PyStr (lang_code_of lang),
             stt_error = Some m\<rparr>) \<and>
   (requests_post E (calls w @ [stt_request E audio (lang_code_of lang)]) = Inl (HTTPError m r) \<longrightarrow>
      fst (speech_to_text E w audio lang) =
        Inr \<lparr>transcript = PyStr [], language_code = PyStr (lang_code_of lang),
             stt_error = Some (lit ''STT error: '' @ str_int (status_code r)
                               @ [32, em_dash, 32] @ resp_text r)\<rparr>) \<and>
   (requests_post E (calls w @ [stt_request E audio (lang_code_of lang)]) = Inr resp \<and>
    400 \<le> status_code resp \<and> status_code resp < 600 \<longrightarrow>
      fst (speech_to_text E w audio lang) =
        Inr \<lparr>transcript = PyStr [], language_code = PyStr (lang_code_of lang),
             stt_error = Some (lit ''STT error: '' @ str_int (status_code resp)
                               @ [32, em_dash, 32] @ resp_text resp)\<rparr>) \<and>
   (requests_post E (calls w @ [stt_request E audio (lang_code_of lang)]) = Inr resp \<and>
    (status_code resp < 400 \<or> 600 \<le> status_code resp) \<and> json_body resp = Inl m \<longrightarrow>
      fst (speech_to_text E w audio lang) =
        Inr \<lparr>transcript = PyStr [], language_code = PyStr (lang_code_of lang),
             stt_error = Some m\<rparr>) \<and>
   (requests_post E (calls w @ [stt_request E audio (lang_code_of lang)]) = Inr resp \<and>
    (status_code resp < 400 \<or> 600 \<le> status_code resp) \<and> json_body resp = Inr v \<and>
    (\<forall>kvs. v \<noteq> PyDict kvs) \<longrightarrow>
      fst (speech_to_text E w audio lang) =
        Inr \<lparr>transcript = PyStr [], language_code = PyStr (lang_code_of lang),
             stt_error = Some (str_exn (no_attribute v (lit ''get'')))\<rparr>) \<and>
   (requests_post E (calls w @ [stt_request E audio (lang_code_of lang)]) = Inr resp \<and>
    (status_code resp < 400 \<or> 600 \<le> status_code resp) \<and>
    json_body resp = Inr (PyDict kvs) \<longrightarrow>
      fst (speech_to_text E w audio lang) =
        Inr \<lparr>transcript = (case map_of kvs (lit ''transcript'') of
                             Some x \<Rightarrow> x | None \<Rightarrow> PyStr []),
             language_code = (case map_of kvs (lit ''language_code'') of
                                Some x \<Rightarrow> x | None \<Rightarrow> PyStr (lang_code_of lang)),
             stt_error = None\<rparr>) \<and>
   (\<exists>r. text_to_speech E w t lang =
          (Inr r, w\<lparr>calls := calls w @ [TtsConvert (tts_text t) (lang_code_of lang)
                                           (lit ''bulbul:v3'')
                                           (dict_get TTS_VOICES lang (lit ''shubh''))]\<rparr>)) \<and>
   (tts_convert E (calls w @ [TtsConvert (tts_text t) (lang_code_of lang) (lit ''bulbul:v3'')
                                (dict_get TTS_VOICES lang (lit ''shubh''))]) = Inl e \<longrightarrow>
      fst (text_to_speech E w t lang) =
        Inr \<lparr>audio_bytes = None, tts_error = Some (str_exn e)\<rparr>) \<and>
   (tts_convert E (calls w @ [TtsConvert (tts_text t) (lang_code_of lang) (lit ''bulbul:v3'')
                                (dict_get TTS_VOICES lang (lit ''shubh''))]) = Inr [] \<longrightarrow>
      fst (text_to_speech E w t lang) =
        Inr \<lparr>audio_bytes = None, tts_error = Some (lit ''list index out of range'')\<rparr>) \<and>
   (tts_convert E (calls w @ [TtsConvert (tts_text t) (lang_code_of lang) (lit ''bulbul:v3'')
                                (dict_get TTS_VOICES lang (lit ''shubh''))]) = Inr (a # rest) \<and>
    b64decode E a = Inl e \<longrightarrow>
      fst (text_to_speech E w t lang) =
        Inr \<lparr>audio_bytes = None, tts_error = Some (str_exn e)\<rparr>) \<and>
   (tts_convert E (calls w @ [TtsConvert (tts_text t) (lang_code_of lang) (lit ''bulbul:v3'')
                                (dict_get TTS_VOICES lang (lit ''shubh''))]) = Inr (a # rest) \<and>
    b64decode E a = Inr decoded \<longrightarrow>
      fst (text_to_speech E w t lang) =
        Inr \<lparr>audio_bytes = Some decoded, tts_error = None\<rparr>) \<and>
   (source_lang \<noteq> target_lang \<and>
    requests_post E (calls w @ [translate_request E t source_lang target_lang]) = Inl e \<longrightarrow>
      fst (translate_text E w t source_lang target_lang) = Inl e) \<and>
   (source_lang \<noteq> target_lang \<and>
    requests_post E (calls w @ [translate_request E t source_lang target_lang]) = Inr resp \<and>
    400 \<le> status_code resp \<and> status_code resp < 600 \<longrightarrow>
      (\<exists>m'. fst (translate_text E w t source_lang target_lang) = Inl (HTTPError m' resp)))"
proof -
  have c1:
    "(\<exists>r. speech_to_text E w audio lang =
          (Inr r, w\<lparr>calls := calls w @ [stt_request E audio (lang_code_of lang)]\<rparr>))"
    by (simp add: speech_to_text_eq)
  have c2:
    "(requests_post E (calls w @ [stt_request E audio (lang_code_of lang)]) = Inl (Exception cls m) \<longrightarrow>
      fst (speech_to_text E w audio lang) =
        Inr \<lparr>transcript = PyStr [], language_code = PyStr (lang_code_of lang),
             stt_error = Some m\<rparr>)"
    by (auto simp: speech_to_text_eq raise_for_status_ok split: pyval.splits)
  have c2b:
    "(requests_post E (calls w @ [stt_request E audio (lang_code_of lang)]) = Inl (HTTPError m r) \<longrightarrow>
      fst (speech_to_text E w audio lang) =
        Inr \<lparr>transcript = PyStr [], language_code = PyStr (lang_code_of lang),
             stt_error = Some (lit ''STT error: '' @ str_int (status_code r)
                               @ [32, em_dash, 32] @ resp_text r)\<rparr>)"
    by (simp add: speech_to_text_eq)
  have c3:
    "(requests_post E (calls w @ [stt_request E audio (lang_code_of lang)]) = Inr resp \<and>
    400 \<le> status_code resp \<and> status_code resp < 600 \<longrightarrow>
      fst (speech_to_text E w audio lang) =
        Inr \<lparr>transcript = PyStr [], language_code = PyStr (lang_code_of lang),
             stt_error = Some (lit ''STT error: '' @ str_int (status_code resp)
                               @ [32, em_dash, 32] @ resp_text resp)\<rparr>)"
    using raise_for_status_error [of resp] by (auto simp: speech_to_text_eq)
  have c4:
    "(requests_post E (calls w @ [stt_request E audio (lang_code_of lang)]) = Inr resp \<and>
    (status_code resp < 400 \<or> 600 \<le> status_code resp) \<and> json_body resp = Inl m \<longrightarrow>
      fst (speech_to_text E w audio lang) =
        Inr \<lparr>transcript = PyStr [], language_code = PyStr (lang_code_of lang),
             stt_error = Some m\<rparr>)"
    by (auto simp: speech_to_text_eq raise_for_status_ok split: pyval.splits)
  have c5:
    "(requests_post E (calls w @ [stt_request E audio (lang_code_of lang)]) = Inr resp \<and>
    (status_code resp < 400 \<or> 600 \<le> status_code resp) \<and> json_body resp = Inr v \<and>
    (\<forall>kvs. v \<noteq> PyDict kvs) \<longrightarrow>
      fst (speech_to_text E w audio lang) =
        Inr \<lparr>transcript = PyStr [], language_code = PyStr (lang_code_of lang),
             stt_error = Some (str_exn (no_attribute v (lit ''get'')))\<rparr>)"
    by (auto simp: speech_to_text_eq raise_for_status_ok split: pyval.splits)
  have c6:
    "(requests_post E (calls w @ [stt_request E audio (lang_code_of lang)]) = Inr resp \<and>
    (status_code resp < 400 \<or> 600 \<le> status_code resp) \<and>
    json_body resp = Inr (PyDict kvs) \<longrightarrow>
      fst (speech_to_text E w audio lang) =
        Inr \<lparr>transcript = (case map_of kvs (lit ''transcript'') of
                             Some x \<Rightarrow> x | None \<Rightarrow> PyStr []),
             language_code = (case map_of kvs (lit ''language_code'') of
                                Some x \<Rightarrow> x | None \<Rightarrow> PyStr (lang_code_of lang)),
             stt_error = None\<rparr>)"
    by (auto simp: speech_to_text_eq raise_for_status_ok split: pyval.splits)
  have c7:
    "(\<exists>r. text_to_speech E w t lang =
          (Inr r, w\<lparr>calls := calls w @ [TtsConvert (tts_text t) (lang_code_of lang)
                                           (lit ''bulbul:v3'')
                                           (dict_get TTS_VOICES lang (lit ''shubh''))]\<rparr>))"
    by (simp add: text_to_speech_eq)
  have c8:
    "(tts_convert E (calls w @ [TtsConvert (tts_text t) (lang_code_of lang) (lit ''bulbul:v3'')
                                (dict_get TTS_VOICES lang (lit ''shubh''))]) = Inl e \<longrightarrow>
      fst (text_to_speech E w t lang) =
        Inr \<lparr>audio_bytes = None, tts_error = Some (str_exn e)\<rparr>)"
    by (simp add: text_to_speech_eq)
  have c9:
    "(tts_convert E (calls w @ [TtsConvert (tts_text t) (lang_code_of lang) (lit ''bulbul:v3'')
                                (dict_get TTS_VOICES lang (lit ''shubh''))]) = Inr [] \<longrightarrow>
      fst (text_to_speech E w t lang) =
        Inr \<lparr>audio_bytes = None, tts_error = Some (lit ''list index out of range'')\<rparr>)"
    by (simp add: text_to_speech_eq)
  have c10:
    "(tts_convert E (calls w @ [TtsConvert (tts_text t) (lang_code_of lang) (lit ''bulbul:v3'')
                                (dict_get TTS_VOICES lang (lit ''shubh''))]) = Inr (a # rest) \<and>
    b64decode E a = Inl e \<longrightarrow>
      fst (text_to_speech E w t lang) =
        Inr \<lparr>audio_bytes = None, tts_error = Some (str_exn e)\<rparr>)"
    by (simp add: text_to_speech_eq)
  have c11:
    "(tts_convert E (calls w @ [TtsConvert (tts_text t) (lang_code_of lang) (lit ''bulbul:v3'')
                                (dict_get TTS_VOICES lang (lit ''shubh''))]) = Inr (a # rest) \<and>
    b64decode E a = Inr decoded \<longrightarrow>
      fst (text_to_speech E w t lang) =
        Inr \<lparr>audio_bytes = Some decoded, tts_error = None\<rparr>)"
    by (simp add: text_to_speech_eq)
  have c12:
    "(source_lang \<noteq> target_lang \<and>
    requests_post E (calls w @ [translate_request E t source_lang target_lang]) = Inl e \<longrightarrow>
      fst (translate_text E w t source_lang target_lang) = Inl e)"
    by (simp add: translate_text_eq)
  have c13:
    "(source_lang \<noteq> target_lang \<and>
    requests_post E (calls w @ [translate_request E t source_lang target_lang]) = Inr resp \<and>
    400 \<le> status_code resp \<and> status_code resp < 600 \<longrightarrow>
      (\<exists>m'. fst (translate_text E w t source_lang target_lang) = Inl (HTTPError m' resp)))"
    using raise_for_status_error [of resp] by (auto simp: translate_text_eq)
  from c1 c2 c2b c3 c4 c5 c6 c7 c8 c9 c10 c11 c12 c13 show ?thesis
    by (intro conjI)
qed

theorem adapters_exception_handling_witness:
  "(let E = example_env 1 (Inl (Exception ''ConnectionError'' (lit ''connection refused''))) example_results
    in requests_post E (calls w0 @ [stt_request E [82, 73, 70, 70] (lang_code_of (lit ''Hindi''))])
         = Inl (Exception ''ConnectionError'' (lit ''connection refused'')) \<and>
       fst (speech_to_text E w0 [82, 73, 70, 70] (lit ''Hindi'')) =
         Inr \<lparr>transcript = PyStr [], language_code = PyStr (lit ''hi-IN''),
              stt_error = Some (lit ''connection refused'')\<rparr> \<and>
       tts_convert E
         (calls w0 @ [TtsConvert (tts_text (lit ''Jai Shri Ram'')) (lang_code_of (lit ''Hindi'')) (lit ''bulbul:v3'')
              (dict_get TTS_VOICES (lit ''Hindi'') (lit ''shubh''))])
         = Inl (Exception ''ApiError'' (lit ''quota exceeded'')) \<and>
       fst (text_to_speech E w0 (lit ''Jai Shri Ram'') (lit ''Hindi'')) =
         Inr \<lparr>audio_bytes = None, tts_error = Some (lit ''quota exceeded'')\<rparr> \<and>
       lit ''hi-IN'' \<noteq> lit ''en-IN'' \<and>
       requests_post E
         (calls w0 @ [translate_request E (lit ''Jai Shri Ram'') (lit ''hi-IN'') (lit ''en-IN'')])
         = Inl (Exception ''ConnectionError'' (lit ''connection refused'')) \<and>
       fst (translate_text E w0 (lit ''Jai Shri Ram'') (lit ''hi-IN'') (lit ''en-IN''))
         = Inl (Exception ''ConnectionError'' (lit ''connection refused''))) \<and>
   (let E = example_env 1 (Inr failing_response) example_results
    in requests_post E (calls w0 @ [stt_request E [82, 73, 70, 70] (lang_code_of (lit ''Hindi''))])
         = Inr failing_response \<and>
       400 \<le> status_code failing_response \<and> status_code failing_response < 600 \<and>
       fst (speech_to_text E w0 [82, 73, 70, 70] (lit ''Hindi'')) =
         Inr \<lparr>transcript = PyStr [], language_code = PyStr (lit ''hi-IN''),
              stt_error = Some (lit ''STT error: 500'' @ [32, 8212, 32] @ lit ''upstream down'')\<rparr> \<and>
       requests_post E
         (calls w0 @ [translate_request E (lit ''Jai Shri Ram'') (lit ''hi-IN'') (lit ''en-IN'')])
         = Inr failing_response \<and>
       (\<exists>m'. fst (translate_text E w0 (lit ''Jai Shri Ram'') (lit ''hi-IN'') (lit ''en-IN''))
               = Inl (HTTPError m' failing_response))) \<and>
   (let E = example_env 0 (Inr ok_response) example_results
    in requests_post E (calls w0 @ [stt_request E [82, 73, 70, 70] (lang_code_of (lit ''Hindi''))])
         = Inr ok_response \<and>
       fst (speech_to_text E w0 [82, 73, 70, 70] (lit ''Hindi'')) =
         Inr \<lparr>transcript = PyStr (lit ''Who is Hanuman?''), language_code = PyStr (lit ''hi-IN''),
              stt_error = None\<rparr> \<and>
       tts_convert E
         (calls w0 @ [TtsConvert (tts_text (lit ''Jai Shri Ram'')) (lang_code_of (lit ''Hindi'')) (lit ''bulbul:v3'')
              (dict_get TTS_VOICES (lit ''Hindi'') (lit ''shubh''))])
         = Inr [lit ''QUJD''] \<and>
       b64decode E (lit ''QUJD'') = Inr [65, 66, 67] \<and>
       fst (text_to_speech E w0 (lit ''Jai Shri Ram'') (lit ''Hindi'')) =
         Inr \<lparr>audio_bytes = Some [65, 66, 67], tts_error = None\<rparr>) \<and>
   (let E = (example_env 0 (Inr ok_response) example_results)
              \<lparr>b64decode := (\<lambda>s. Inl (Exception ''Error'' (lit ''Incorrect padding'')))\<rparr>
    in tts_convert E
         (calls w0 @ [TtsConvert (tts_text (lit ''Jai Shri Ram'')) (lang_code_of (lit ''Hindi'')) (lit ''bulbul:v3'')
              (dict_get TTS_VOICES (lit ''Hindi'') (lit ''shubh''))])
         = Inr [lit ''QUJD''] \<and>
       b64decode E (lit ''QUJD'') = Inl (Exception ''Error'' (lit ''Incorrect padding'')) \<and>
       fst (text_to_speech E w0 (lit ''Jai Shri Ram'') (lit ''Hindi'')) =
         Inr \<lparr>audio_bytes = None, tts_error = Some (lit ''Incorrect padding'')\<rparr>)"
proof -
  have hi: "lang_code_of (lit ''Hindi'') = lit ''hi-IN''" "lit ''hi-IN'' \<noteq> lit ''en-IN''"
    by (simp_all add: run_defs)
  have b1:
    "(let E = example_env 1 (Inl (Exception ''ConnectionError'' (lit ''connection refused''))) example_results
    in requests_post E (calls w0 @ [stt_request E [82, 73, 70, 70] (lang_code_of (lit ''Hindi''))])
         = Inl (Exception ''ConnectionError'' (lit ''connection refused'')) \<and>
       fst (speech_to_text E w0 [82, 73, 70, 70] (lit ''Hindi'')) =
         Inr \<lparr>transcript = PyStr [], language_code = PyStr (lit ''hi-IN''),
              stt_error = Some (lit ''connection refused'')\<rparr> \<and>
       tts_convert E
         (calls w0 @ [TtsConvert (tts_text (lit ''Jai Shri Ram'')) (lang_code_of (lit ''Hindi'')) (lit ''bulbul:v3'')
              (dict_get TTS_VOICES (lit ''Hindi'') (lit ''shubh''))])
         = Inl (Exception ''ApiError'' (lit ''quota exceeded'')) \<and>
       fst (text_to_speech E w0 (lit ''Jai Shri Ram'') (lit ''Hindi'')) =
         Inr \<lparr>audio_bytes = None, tts_error = Some (lit ''quota exceeded'')\<rparr> \<and>
       lit ''hi-IN'' \<noteq> lit ''en-IN'' \<and>
       requests_post E
         (calls w0 @ [translate_request E (lit ''Jai Shri Ram'') (lit ''hi-IN'') (lit ''en-IN'')])
         = Inl (Exception ''ConnectionError'' (lit ''connection refused'')) \<and>
       fst (translate_text E w0 (lit ''Jai Shri Ram'') (lit ''hi-IN'') (lit ''en-IN''))
         = Inl (Exception ''ConnectionError'' (lit ''connection refused'')))"
  proof -
    define E where "E = example_env 1 (Inl (Exception ''ConnectionError'' (lit ''connection refused''))) example_results"
    note inst = adapters_exception_handling
                  [where E = E and w = w0 and audio = "[82, 73, 70, 70]" and lang = "lit ''Hindi''"
                     and t = "lit ''Jai Shri Ram''" and source_lang = "lit ''hi-IN''"
                     and target_lang = "lit ''en-IN''"]
    have p1: "requests_post E (calls w0 @ [stt_request E [82, 73, 70, 70] (lang_code_of (lit ''Hindi''))])
         = Inl (Exception ''ConnectionError'' (lit ''connection refused''))"
      by (simp add: E_def example_env_def w0_def)
    have q1: "fst (speech_to_text E w0 [82, 73, 70, 70] (lit ''Hindi'')) =
         Inr \<lparr>transcript = PyStr [], language_code = PyStr (lit ''hi-IN''),
              stt_error = Some (lit ''connection refused'')\<rparr>"
      using inst [where cls = "''ConnectionError''" and m = "lit ''connection refused''", THEN conjunct2, THEN conjunct1] p1
      by (simp add: hi)
    have p2: "tts_convert E
         (calls w0 @ [TtsConvert (tts_text (lit ''Jai Shri Ram'')) (lang_code_of (lit ''Hindi'')) (lit ''bulbul:v3'')
              (dict_get TTS_VOICES (lit ''Hindi'') (lit ''shubh''))])
         = Inl (Exception ''ApiError'' (lit ''quota exceeded''))"
      by (simp add: E_def example_env_def w0_def)
    have q2: "fst (text_to_speech E w0 (lit ''Jai Shri Ram'') (lit ''Hindi'')) =
         Inr \<lparr>audio_bytes = None, tts_error = Some (lit ''quota exceeded'')\<rparr>"
      using inst [where e = "Exception ''ApiError'' (lit ''quota exceeded'')", THEN conjunct2, THEN conjunct2, THEN conjunct2, THEN conjunct2, THEN conjunct2, THEN conjunct2, THEN conjunct2, THEN conjunct2, THEN conjunct1] p2
      by simp
    have p3: "requests_post E
         (calls w0 @ [translate_request E (lit ''Jai Shri Ram'') (lit ''hi-IN'') (lit ''en-IN'')])
         = Inl (Exception ''ConnectionError'' (lit ''connection refused''))"
      by (simp add: E_def example_env_def w0_def)
    have q3: "fst (translate_text E w0 (lit ''Jai Shri Ram'') (lit ''hi-IN'') (lit ''en-IN''))
         = Inl (Exception ''ConnectionError'' (lit ''connection refused''))"
      using inst [where e = "Exception ''ConnectionError'' (lit ''connection refused'')", THEN conjunct2, THEN conjunct2, THEN conjunct2, THEN conjunct2, THEN conjunct2, THEN conjunct2, THEN conjunct2, THEN conjunct2, THEN conjunct2, THEN conjunct2, THEN conjunct2, THEN conjunct2, THEN conjunct1]
            p3 hi(2)
      by simp
    have goal: "requests_post E (calls w0 @ [stt_request E [82, 73, 70, 70] (lang_code_of (lit ''Hindi''))])
         = Inl (Exception ''ConnectionError'' (lit ''connection refused'')) \<and>
       fst (speech_to_text E w0 [82, 73, 70, 70] (lit ''Hindi'')) =
         Inr \<lparr>transcript = PyStr [], language_code = PyStr (lit ''hi-IN''),
              stt_error = Some (lit ''connection refused'')\<rparr> \<and>
       tts_convert E
         (calls w0 @ [TtsConvert (tts_text (lit ''Jai Shri Ram'')) (lang_code_of (lit ''Hindi'')) (lit ''bulbul:v3'')
              (dict_get TTS_VOICES (lit ''Hindi'') (lit ''shubh''))])
         = Inl (Exception ''ApiError'' (lit ''quota exceeded'')) \<and>
       fst (text_to_speech E w0 (lit ''Jai Shri Ram'') (lit ''Hindi'')) =
         Inr \<lparr>audio_bytes = None, tts_error = Some (lit ''quota exceeded'')\<rparr> \<and>
       lit ''hi-IN'' \<noteq> lit ''en-IN'' \<and>
       requests_post E
         (calls w0 @ [translate_request E (lit ''Jai Shri Ram'') (lit ''hi-IN'') (lit ''en-IN'')])
         = Inl (Exception ''ConnectionError'' (lit ''connection refused'')) \<and>
       fst (translate_text E w0 (lit ''Jai Shri Ram'') (lit ''hi-IN'') (lit ''en-IN''))
         = Inl (Exception ''ConnectionError'' (lit ''connection refused''))"
      using p1 q1 p2 q2 hi(2) p3 q3 by (intro conjI)
    show ?thesis
      unfolding Let_def by (rule goal [unfolded E_def])
  qed
  have b2:
    "(let E = example_env 1 (Inr failing_response) example_results
    in requests_post E (calls w0 @ [stt_request E [82, 73, 70, 70] (lang_code_of (lit ''Hindi''))])
         = Inr failing_response \<and>
       400 \<le> status_code failing_response \<and> status_code failing_response < 600 \<and>
       fst (speech_to_text E w0 [82, 73, 70, 70] (lit ''Hindi'')) =
         Inr \<lparr>transcript = PyStr [], language_code = PyStr (lit ''hi-IN''),
              stt_error = Some (lit ''STT error: 500'' @ [32, 8212, 32] @ lit ''upstream down'')\<rparr> \<and>
       requests_post E
         (calls w0 @ [translate_request E (lit ''Jai Shri Ram'') (lit ''hi-IN'') (lit ''en-IN'')])
         = Inr failing_response \<and>
       (\<exists>m'. fst (translate_text E w0 (lit ''Jai Shri Ram'') (lit ''hi-IN'') (lit ''en-IN''))
               = Inl (HTTPError m' failing_response)))"
  proof -
    define E where "E = example_env 1 (Inr failing_response) example_results"
    note inst = adapters_exception_handling
                  [where E = E and w = w0 and audio = "[82, 73, 70, 70]" and lang = "lit ''Hindi''"
                     and t = "lit ''Jai Shri Ram''" and source_lang = "lit ''hi-IN''"
                     and target_lang = "lit ''en-IN''" and resp = failing_response]
    have p1: "requests_post E (calls w0 @ [stt_request E [82, 73, 70, 70] (lang_code_of (lit ''Hindi''))])
         = Inr failing_response"
      by (simp add: E_def example_env_def w0_def)
    have st: "400 \<le> status_code failing_response" "status_code failing_response < 600"
      by (simp_all add: failing_response_def)
    have "fst (speech_to_text E w0 [82, 73, 70, 70] (lit ''Hindi'')) =
         Inr \<lparr>transcript = PyStr [], language_code = PyStr (lang_code_of (lit ''Hindi'')),
              stt_error = Some (lit ''STT error: '' @ str_int (status_code failing_response)
                                @ [32, em_dash, 32] @ resp_text failing_response)\<rparr>"
      using inst [THEN conjunct2, THEN conjunct2, THEN conjunct2, THEN conjunct1] p1 st by simp
    then have q1: "fst (speech_to_text E w0 [82, 73, 70, 70] (lit ''Hindi'')) =
         Inr \<lparr>transcript = PyStr [], language_code = PyStr (lit ''hi-IN''),
              stt_error = Some (lit ''STT error: 500'' @ [32, 8212, 32] @ lit ''upstream down'')\<rparr>"
      by (simp add: run_defs)
    have p3: "requests_post E
         (calls w0 @ [translate_request E (lit ''Jai Shri Ram'') (lit ''hi-IN'') (lit ''en-IN'')])
         = Inr failing_response"
      by (simp add: E_def example_env_def w0_def)
    have q3: "\<exists>m'. fst (translate_text E w0 (lit ''Jai Shri Ram'') (lit ''hi-IN'') (lit ''en-IN''))
               = Inl (HTTPError m' failing_response)"
      using inst [THEN conjunct2, THEN conjunct2, THEN conjunct2, THEN conjunct2, THEN conjunct2, THEN conjunct2, THEN conjunct2, THEN conjunct2, THEN conjunct2, THEN conjunct2, THEN conjunct2, THEN conjunct2, THEN conjunct2] p3 st hi(2) by simp
    have goal: "requests_post E (calls w0 @ [stt_request E [82, 73, 70, 70] (lang_code_of (lit ''Hindi''))])
         = Inr failing_response \<and>
       400 \<le> status_code failing_response \<and> status_code failing_response < 600 \<and>
       fst (speech_to_text E w0 [82, 73, 70, 70] (lit ''Hindi'')) =
         Inr \<lparr>transcript = PyStr [], language_code = PyStr (lit ''hi-IN''),
              stt_error = Some (lit ''STT error: 500'' @ [32, 8212, 32] @ lit ''upstream down'')\<rparr> \<and>
       requests_post E
         (calls w0 @ [translate_request E (lit ''Jai Shri Ram'') (lit ''hi-IN'') (lit ''en-IN'')])
         = Inr failing_response \<and>
       (\<exists>m'. fst (translate_text E w0 (lit ''Jai Shri Ram'') (lit ''hi-IN'') (lit ''en-IN''))
               = Inl (HTTPError m' failing_response))"
      using p1 st q1 p3 q3 by (intro conjI)
    show ?thesis
      unfolding Let_def by (rule goal [unfolded E_def])
  qed
  have b3:
    "(let E = example_env 0 (Inr ok_response) example_results
    in requests_post E (calls w0 @ [stt_request E [82, 73, 70, 70] (lang_code_of (lit ''Hindi''))])
         = Inr ok_response \<and>
       fst (speech_to_text E w0 [82, 73, 70, 70] (lit ''Hindi'')) =
         Inr \<lparr>transcript = PyStr (lit ''Who is Hanuman?''), language_code = PyStr (lit ''hi-IN''),
              stt_error = None\<rparr> \<and>
       tts_convert E
         (calls w0 @ [TtsConvert (tts_text (lit ''Jai Shri Ram'')) (lang_code_of (lit ''Hindi'')) (lit ''bulbul:v3'')
              (dict_get TTS_VOICES (lit ''Hindi'') (lit ''shubh''))])
         = Inr [lit ''QUJD''] \<and>
       b64decode E (lit ''QUJD'') = Inr [65, 66, 67] \<and>
       fst (text_to_speech E w0 (lit ''Jai Shri Ram'') (lit ''Hindi'')) =
         Inr \<lparr>audio_bytes = Some [65, 66, 67], tts_error = None\<rparr>)"
  proof -
    define E where "E = example_env 0 (Inr ok_response) example_results"
    note inst = adapters_exception_handling
                  [where E = E and w = w0 and audio = "[82, 73, 70, 70]" and lang = "lit ''Hindi''"
                     and t = "lit ''Jai Shri Ram''" and resp = ok_response]
    have p1: "requests_post E (calls w0 @ [stt_request E [82, 73, 70, 70] (lang_code_of (lit ''Hindi''))])
         = Inr ok_response"
      by (simp add: E_def example_env_def w0_def)
    have st: "status_code ok_response < 400 \<or> 600 \<le> status_code ok_response"
      by (simp add: ok_response_def)
    define kvs where "kvs =
        [(lit ''translated_text'', PyStr (lit ''translated'')),
         (lit ''transcript'', PyStr (lit ''Who is Hanuman?'')),
         (lit ''choices'',
            PyList [PyDict [(lit ''message'',
               PyDict [(lit ''content'', PyStr (lit '' Hanuman is the son of Vayu. ''))])]])]"
    have body: "json_body ok_response = Inr (PyDict kvs)"
      by (simp add: ok_response_def kvs_def)
    have look: "map_of kvs (lit ''transcript'') = Some (PyStr (lit ''Who is Hanuman?''))"
      "map_of kvs (lit ''language_code'') = None"
      by (simp_all add: kvs_def lit_def)
    have q1: "fst (speech_to_text E w0 [82, 73, 70, 70] (lit ''Hindi'')) =
         Inr \<lparr>transcript = PyStr (lit ''Who is Hanuman?''), language_code = PyStr (lit ''hi-IN''),
              stt_error = None\<rparr>"
      using inst [where kvs = kvs, THEN conjunct2, THEN conjunct2, THEN conjunct2, THEN conjunct2, THEN conjunct2, THEN conjunct2, THEN conjunct1] p1 st body
      by (simp add: look hi)
    have p2: "tts_convert E
         (calls w0 @ [TtsConvert (tts_text (lit ''Jai Shri Ram'')) (lang_code_of (lit ''Hindi'')) (lit ''bulbul:v3'')
              (dict_get TTS_VOICES (lit ''Hindi'') (lit ''shubh''))])
         = Inr [lit ''QUJD'']"
      by (simp add: E_def example_env_def w0_def)
    have d: "b64decode E (lit ''QUJD'') = Inr [65, 66, 67]"
      by (simp add: E_def example_env_def)
    have q2: "fst (text_to_speech E w0 (lit ''Jai Shri Ram'') (lit ''Hindi'')) =
         Inr \<lparr>audio_bytes = Some [65, 66, 67], tts_error = None\<rparr>"
      using inst [where a = "lit ''QUJD''" and rest = "[]" and decoded = "[65, 66, 67]", THEN conjunct2, THEN conjunct2, THEN conjunct2, THEN conjunct2, THEN conjunct2, THEN conjunct2, THEN conjunct2, THEN conjunct2, THEN conjunct2, THEN conjunct2, THEN conjunct2, THEN conjunct1] p2 d
      by simp
    have goal: "requests_post E (calls w0 @ [stt_request E [82, 73, 70, 70] (lang_code_of (lit ''Hindi''))])
         = Inr ok_response \<and>
       fst (speech_to_text E w0 [82, 73, 70, 70] (lit ''Hindi'')) =
         Inr \<lparr>transcript = PyStr (lit ''Who is Hanuman?''), language_code = PyStr (lit ''hi-IN''),
              stt_error = None\<rparr> \<and>
       tts_convert E
         (calls w0 @ [TtsConvert (tts_text (lit ''Jai Shri Ram'')) (lang_code_of (lit ''Hindi'')) (lit ''bulbul:v3'')
              (dict_get TTS_VOICES (lit ''Hindi'') (lit ''shubh''))])
         = Inr [lit ''QUJD''] \<and>
       b64decode E (lit ''QUJD'') = Inr [65, 66, 67] \<and>
       fst (text_to_speech E w0 (lit ''Jai Shri Ram'') (lit ''Hindi'')) =
         Inr \<lparr>audio_bytes = Some [65, 66, 67], tts_error = None\<rparr>"
      using p1 q1 p2 d q2 by (intro conjI)
    show ?thesis
      unfolding Let_def by (rule goal [unfolded E_def])
  qed
  have b4:
    "(let E = (example_env 0 (Inr ok_response) example_results)
              \<lparr>b64decode := (\<lambda>s. Inl (Exception ''Error'' (lit ''Incorrect padding'')))\<rparr>
    in tts_convert E
         (calls w0 @ [TtsConvert (tts_text (lit ''Jai Shri Ram'')) (lang_code_of (lit ''Hindi'')) (lit ''bulbul:v3'')
              (dict_get TTS_VOICES (lit ''Hindi'') (lit ''shubh''))])
         = Inr [lit ''QUJD''] \<and>
       b64decode E (lit ''QUJD'') = Inl (Exception ''Error'' (lit ''Incorrect padding'')) \<and>
       fst (text_to_speech E w0 (lit ''Jai Shri Ram'') (lit ''Hindi'')) =
         Inr \<lparr>audio_bytes = None, tts_error = Some (lit ''Incorrect padding'')\<rparr>)"
  proof -
    define E where "E = (example_env 0 (Inr ok_response) example_results)
              \<lparr>b64decode := (\<lambda>s. Inl (Exception ''Error'' (lit ''Incorrect padding'')))\<rparr>"
    note inst = adapters_exception_handling
                  [where E = E and w = w0 and lang = "lit ''Hindi''" and t = "lit ''Jai Shri Ram''"]
    have p2: "tts_convert E
         (calls w0 @ [TtsConvert (tts_text (lit ''Jai Shri Ram'')) (lang_code_of (lit ''Hindi'')) (lit ''bulbul:v3'')
              (dict_get TTS_VOICES (lit ''Hindi'') (lit ''shubh''))])
         = Inr [lit ''QUJD'']"
      by (simp add: E_def example_env_def w0_def)
    have d: "b64decode E (lit ''QUJD'') = Inl (Exception ''Error'' (lit ''Incorrect padding''))"
      by (simp add: E_def)
    have q2: "fst (text_to_speech E w0 (lit ''Jai Shri Ram'') (lit ''Hindi'')) =
         Inr \<lparr>audio_bytes = None, tts_error = Some (lit ''Incorrect padding'')\<rparr>"
      using inst [where a = "lit ''QUJD''" and rest = "[]"
                    and e = "Exception ''Error'' (lit ''Incorrect padding'')", THEN conjunct2, THEN conjunct2, THEN conjunct2, THEN conjunct2, THEN conjunct2, THEN conjunct2, THEN conjunct2, THEN conjunct2, THEN conjunct2, THEN conjunct2, THEN conjunct1] p2 d
      by simp
    have goal: "tts_convert E
         (calls w0 @ [TtsConvert (tts_text (lit ''Jai Shri Ram'')) (lang_code_of (lit ''Hindi'')) (lit ''bulbul:v3'')
              (dict_get TTS_VOICES (lit ''Hindi'') (lit ''shubh''))])
         = Inr [lit ''QUJD''] \<and>
       b64decode E (lit ''QUJD'') = Inl (Exception ''Error'' (lit ''Incorrect padding'')) \<and>
       fst (text_to_speech E w0 (lit ''Jai Shri Ram'') (lit ''Hindi'')) =
         Inr \<lparr>audio_bytes = None, tts_error = Some (lit ''Incorrect padding'')\<rparr>"
      using p2 d q2 by (intro conjI)
    show ?thesis
      unfolding Let_def by (rule goal [unfolded E_def])
  qed
  show ?thesis
    by (rule conjI [OF b1 conjI [OF b2 conjI [OF b3 b4]]])
qed

text \<open>
  The claim as stated fails for \<open>translate_text\<close>: on an HTTP 500 reply it raises the
  \<open>HTTPError\<close> of \<open>raise_for_status\<close> to its caller.
\<close>

theorem translate_text_raises_http_500:
  "fst (translate_text (example_env 1 (Inr failing_response) example_results) w0
         (lit ''Ravana kaun tha?'') (lit ''hi-IN'') (lit ''en-IN'')) =
   Inl (HTTPError (lit ''500 Server Error: Internal Server Error for url: https://api.sarvam.ai'')
          failing_response)"
  by (simp add: run_defs)

text \<open>
  Claim C8. Retrieval that returns no passage, or fewer than the three asked for, is
  not an error: the loop over the store's result returns one passage per document, the
  empty list for an empty result. Whatever list \<open>ps\<close> retrieval returns, the next call of
  \<open>ask\<close> is the generation request built from \<open>ps\<close>: its user message holds the context
  block of \<open>ps\<close>, which is empty for no passage and otherwise has one labelled part per
  passage, numbered from 1 and separated by blank lines. When generation then returns
  an answer (and back-translation, if the language needs one, returns), \<open>ask\<close> returns
  that answer with the passages \<open>ps\<close> and \<open>error\<close> \<open>None\<close>.
\<close>

theorem ask_proceeds_with_few_passages:
  "passages_loop metas 0 [] [] = Inr [] \<and>
   context_block E [] = [] \<and>
   (translate_query E w query (lang_code_of lang) = (Inr q_en, w1) \<and>
    retrieve_passages E w1 q_en 3 = (Inr ps, w2) \<longrightarrow>
      (\<exists>rest. calls (snd (ask E w query lang)) = calls w2 @ chat_request E q_en ps # rest) \<and>
      (\<forall>answer_en w3 a w4.
         generate_answer E w2 q_en ps = (Inr answer_en, w3) \<and>
         translate_answer E w3 answer_en (lang_code_of lang) = (Inr a, w4) \<longrightarrow>
           ask E w query lang =
             (Inr \<lparr>answer = a, passages = ps, language = lang, query_en = Some q_en,
                   error = None\<rparr>, w4))) \<and>
   passages_loop [Some meta] 0 [doc] [] =
     Inr [\<lparr>ptext = doc,
           kanda = dict_get meta (lit ''kanda'') (PyStr []),
           topic = dict_get meta (lit ''topic'') (PyStr []),
           characters = dict_get meta (lit ''characters'') (PyStr [])\<rparr>] \<and>
   context_block E [p1] = context_part E (1, p1) \<and>
   context_block E [p1, p2] = context_part E (1, p1) @ [10, 10] @ context_part E (2, p2) \<and>
   context_block E [p1, p2, p3] =
     context_part E (1, p1) @ [10, 10] @ context_part E (2, p2) @ [10, 10]
     @ context_part E (3, p3) \<and>
   context_part E (i, p) =
     lit ''[Passage '' @ str_int (int i) @ [32, 8212, 32] @ fmt E (kanda p)
     @ lit '', Topic: '' @ fmt E (topic p) @ lit '']'' @ [10] @ ptext p \<and>
   user_message E q_en ps =
     lit ''Context from the Ramayana:'' @ [10, 10] @ context_block E ps @ [10, 10]
     @ lit ''Question: '' @ fmt E q_en @ [10, 10] @ lit ''Answer as Valmiki the sage:'' \<and>
   chat_request E q_en ps =
     RequestsPost (lit ''https://api.sarvam.ai/v1/chat/completions'')
       [(lit ''api-subscription-key'', SARVAM_API_KEY E),
        (lit ''Content-Type'', Some (lit ''application/json''))]
       (PyDict
          [(lit ''model'', PyStr (lit ''sarvam-m'')),
           (lit ''messages'',
              PyList [PyDict [(lit ''role'', PyStr (lit ''system'')),
                              (lit ''content'', PyStr system_prompt)],
                      PyDict [(lit ''role'', PyStr (lit ''user'')),
                              (lit ''content'', PyStr (user_message E q_en ps))]]),
           (lit ''max_tokens'', PyInt 512)])"
proof -
  have loop: "passages_loop metas 0 [] [] = Inr []"
    "passages_loop [Some meta] 0 [doc] [] =
     Inr [\<lparr>ptext = doc,
           kanda = dict_get meta (lit ''kanda'') (PyStr []),
           topic = dict_get meta (lit ''topic'') (PyStr []),
           characters = dict_get meta (lit ''characters'') (PyStr [])\<rparr>]"
    by simp_all
  have ctx: "context_block E [] = []"
    "context_block E [p1] = context_part E (1, p1)"
    "context_block E [p1, p2] = context_part E (1, p1) @ [10, 10] @ context_part E (2, p2)"
    "context_block E [p1, p2, p3] =
     context_part E (1, p1) @ [10, 10] @ context_part E (2, p2) @ [10, 10]
     @ context_part E (3, p3)"
    by (simp_all add: context_block_def enumerate_eq_zip upt_rec numeral_2_eq_2 numeral_3_eq_3)
  have part: "context_part E (i, p) =
     lit ''[Passage '' @ str_int (int i) @ [32, 8212, 32] @ fmt E (kanda p)
     @ lit '', Topic: '' @ fmt E (topic p) @ lit '']'' @ [10] @ ptext p"
    by (simp add: context_part_def em_dash_def)
  have msg: "user_message E q_en ps =
     lit ''Context from the Ramayana:'' @ [10, 10] @ context_block E ps @ [10, 10]
     @ lit ''Question: '' @ fmt E q_en @ [10, 10] @ lit ''Answer as Valmiki the sage:''"
    by (simp add: user_message_def)
  have req: "chat_request E q_en ps =
     RequestsPost (lit ''https://api.sarvam.ai/v1/chat/completions'')
       [(lit ''api-subscription-key'', SARVAM_API_KEY E),
        (lit ''Content-Type'', Some (lit ''application/json''))]
       (PyDict
          [(lit ''model'', PyStr (lit ''sarvam-m'')),
           (lit ''messages'',
              PyList [PyDict [(lit ''role'', PyStr (lit ''system'')),
                              (lit ''content'', PyStr system_prompt)],
                      PyDict [(lit ''role'', PyStr (lit ''user'')),
                              (lit ''content'', PyStr (user_message E q_en ps))]]),
           (lit ''max_tokens'', PyInt 512)])"
    by (simp add: chat_request_def)
  note run = ask_after_retrieval [of E w query lang q_en w1 ps w2]
  from loop(1) ctx(1) run loop(2) ctx(2-4) part msg req show ?thesis
    by (intro conjI)
qed

theorem ask_proceeds_with_few_passages_witness:
  "(let E = example_env 0 (Inr ok_response) no_results;
        q = lit ''Who is Hanuman?'';
        a_en = lit ''Hanuman is the son of Vayu.'';
        s1 = translate_query E w0 q (lang_code_of (lit ''English''));
        s2 = retrieve_passages E (snd s1) (PyStr q) 3;
        s3 = generate_answer E (snd s2) (PyStr q) [];
        s4 = translate_answer E (snd s3) a_en (lang_code_of (lit ''English''))
    in fst s1 = Inr (PyStr q) \<and>
       fst s2 = Inr [] \<and>
       fst s3 = Inr a_en \<and>
       fst s4 = Inr (PyStr a_en) \<and>
       ask E w0 q (lit ''English'') =
         (Inr \<lparr>answer = PyStr a_en, passages = [], language = lit ''English'',
               query_en = Some (PyStr q), error = None\<rparr>, snd s4) \<and>
       calls (snd s4) = [ChromaGetCollection DB_PATH COLLECTION, CollectionQuery [PyStr q] 3,
                         chat_request E (PyStr q) []] \<and>
       user_message E (PyStr q) [] =
         lit ''Context from the Ramayana:'' @ [10, 10, 10, 10] @ lit ''Question: Who is Hanuman?''
         @ [10, 10] @ lit ''Answer as Valmiki the sage:'') \<and>
   (let E = example_env 0 (Inr ok_response) example_results;
        q = lit ''Who is Hanuman?'';
        a_en = lit ''Hanuman is the son of Vayu.'';
        s1 = translate_query E w0 q (lang_code_of (lit ''English''));
        s2 = retrieve_passages E (snd s1) (PyStr q) 3;
        s3 = generate_answer E (snd s2) (PyStr q) [example_passage];
        s4 = translate_answer E (snd s3) a_en (lang_code_of (lit ''English''))
    in fst s1 = Inr (PyStr q) \<and>
       fst s2 = Inr [example_passage] \<and>
       fst s3 = Inr a_en \<and>
       fst s4 = Inr (PyStr a_en) \<and>
       ask E w0 q (lit ''English'') =
         (Inr \<lparr>answer = PyStr a_en, passages = [example_passage], language = lit ''English'',
               query_en = Some (PyStr q), error = None\<rparr>, snd s4) \<and>
       calls (snd s4) = [ChromaGetCollection DB_PATH COLLECTION, CollectionQuery [PyStr q] 3,
                         chat_request E (PyStr q) [example_passage]] \<and>
       user_message E (PyStr q) [example_passage] =
         lit ''Context from the Ramayana:'' @ [10, 10] @ lit ''[Passage 1 '' @ [8212]
         @ lit '' Sundara Kanda, Topic: Leap to Lanka]'' @ [10]
         @ lit ''Hanuman leaps across the ocean to Lanka.'' @ [10, 10]
         @ lit ''Question: Who is Hanuman?'' @ [10, 10] @ lit ''Answer as Valmiki the sage:'')"
proof -
  have b1:
    "(let E = example_env 0 (Inr ok_response) no_results;
        q = lit ''Who is Hanuman?'';
        a_en = lit ''Hanuman is the son of Vayu.'';
        s1 = translate_query E w0 q (lang_code_of (lit ''English''));
        s2 = retrieve_passages E (snd s1) (PyStr q) 3;
        s3 = generate_answer E (snd s2) (PyStr q) [];
        s4 = translate_answer E (snd s3) a_en (lang_code_of (lit ''English''))
    in fst s1 = Inr (PyStr q) \<and>
       fst s2 = Inr [] \<and>
       fst s3 = Inr a_en \<and>
       fst s4 = Inr (PyStr a_en) \<and>
       ask E w0 q (lit ''English'') =
         (Inr \<lparr>answer = PyStr a_en, passages = [], language = lit ''English'',
               query_en = Some (PyStr q), error = None\<rparr>, snd s4) \<and>
       calls (snd s4) = [ChromaGetCollection DB_PATH COLLECTION, CollectionQuery [PyStr q] 3,
                         chat_request E (PyStr q) []] \<and>
       user_message E (PyStr q) [] =
         lit ''Context from the Ramayana:'' @ [10, 10, 10, 10] @ lit ''Question: Who is Hanuman?''
         @ [10, 10] @ lit ''Answer as Valmiki the sage:'')"
  proof -
    define E where "E = example_env 0 (Inr ok_response) no_results"
    define q where "q = lit ''Who is Hanuman?''"
    define a_en where "a_en = lit ''Hanuman is the son of Vayu.''"
    define s1 where "s1 = translate_query E w0 q (lang_code_of (lit ''English''))"
    define s2 where "s2 = retrieve_passages E (snd s1) (PyStr q) 3"
    define s3 where "s3 = generate_answer E (snd s2) (PyStr q) []"
    define s4 where "s4 = translate_answer E (snd s3) a_en (lang_code_of (lit ''English''))"
    note inst = ask_proceeds_with_few_passages
                  [where E = E and w = w0 and query = q and lang = "lit ''English''"
                     and q_en = "PyStr q" and ?w1.0 = "snd s1" and ps = "[]"
                     and ?w2.0 = "snd s2"]
    have f1: "fst s1 = Inr (PyStr q)"
      unfolding s1_def E_def q_def by (simp add: run_defs)
    have f2: "fst s2 = Inr []"
      unfolding s2_def s1_def E_def q_def by (simp add: run_defs)
    have c2: "calls (snd s2) = [ChromaGetCollection DB_PATH COLLECTION, CollectionQuery [PyStr q] 3]"
      unfolding s2_def s1_def E_def q_def by (simp add: run_defs)
    have f3: "fst s3 = Inr a_en"
      unfolding s3_def by (simp add: generate_answer_def external_eq bind_exn_pair c2)
         (simp add: E_def a_en_def run_defs)
    have c3: "calls (snd s3) = [ChromaGetCollection DB_PATH COLLECTION, CollectionQuery [PyStr q] 3,
                         chat_request E (PyStr q) []]"
      unfolding s3_def by (simp add: generate_answer_calls c2)
    have en: "lang_code_of (lit ''English'') = lit ''en-IN''"
      by (simp add: run_defs)
    have s4_eq: "s4 = (Inr (PyStr a_en), snd s3)"
      unfolding s4_def by (simp add: translate_answer_def en)
    have h1: "translate_query E w0 q (lang_code_of (lit ''English'')) = (Inr (PyStr q), snd s1)"
      using f1 unfolding s1_def by (metis prod.collapse)
    have h2: "retrieve_passages E (snd s1) (PyStr q) 3 = (Inr [], snd s2)"
      using f2 unfolding s2_def by (metis prod.collapse)
    have h3: "generate_answer E (snd s2) (PyStr q) [] = (Inr a_en, snd s3)"
      using f3 unfolding s3_def by (metis prod.collapse)
    have h4: "translate_answer E (snd s3) a_en (lang_code_of (lit ''English''))
                = (Inr (PyStr a_en), snd s4)"
      using s4_eq unfolding s4_def by simp
    have r: "ask E w0 q (lit ''English'') =
         (Inr \<lparr>answer = PyStr a_en, passages = [], language = lit ''English'',
               query_en = Some (PyStr q), error = None\<rparr>, snd s4)"
      using inst [THEN conjunct2, THEN conjunct2, THEN conjunct1] h1 h2 h3 h4 by blast
    have um: "user_message E (PyStr q) [] =
         lit ''Context from the Ramayana:'' @ [10, 10, 10, 10] @ lit ''Question: Who is Hanuman?''
         @ [10, 10] @ lit ''Answer as Valmiki the sage:''"
      using inst [THEN conjunct2, THEN conjunct1] inst [THEN conjunct2, THEN conjunct2, THEN conjunct2, THEN conjunct2, THEN conjunct2, THEN conjunct2, THEN conjunct2, THEN conjunct2, THEN conjunct1]
      by (simp add: fmt_def q_def lit_def)
    have goal: "fst s1 = Inr (PyStr q) \<and>
       fst s2 = Inr [] \<and>
       fst s3 = Inr a_en \<and>
       fst s4 = Inr (PyStr a_en) \<and>
       ask E w0 q (lit ''English'') =
         (Inr \<lparr>answer = PyStr a_en, passages = [], language = lit ''English'',
               query_en = Some (PyStr q), error = None\<rparr>, snd s4) \<and>
       calls (snd s4) = [ChromaGetCollection DB_PATH COLLECTION, CollectionQuery [PyStr q] 3,
                         chat_request E (PyStr q) []] \<and>
       user_message E (PyStr q) [] =
         lit ''Context from the Ramayana:'' @ [10, 10, 10, 10] @ lit ''Question: Who is Hanuman?''
         @ [10, 10] @ lit ''Answer as Valmiki the sage:''"
      using f1 f2 f3 r c3 um by (simp add: s4_eq)
    show ?thesis
      unfolding Let_def
      by (rule goal [unfolded s4_def s3_def s2_def s1_def E_def q_def a_en_def])
  qed
  have b2:
    "(let E = example_env 0 (Inr ok_response) example_results;
        q = lit ''Who is Hanuman?'';
        a_en = lit ''Hanuman is the son of Vayu.'';
        s1 = translate_query E w0 q (lang_code_of (lit ''English''));
        s2 = retrieve_passages E (snd s1) (PyStr q) 3;
        s3 = generate_answer E (snd s2) (PyStr q) [example_passage];
        s4 = translate_answer E (snd s3) a_en (lang_code_of (lit ''English''))
    in fst s1 = Inr (PyStr q) \<and>
       fst s2 = Inr [example_passage] \<and>
       fst s3 = Inr a_en \<and>
       fst s4 = Inr (PyStr a_en) \<and>
       ask E w0 q (lit ''English'') =
         (Inr \<lparr>answer = PyStr a_en, passages = [example_passage], language = lit ''English'',
               query_en = Some (PyStr q), error = None\<rparr>, snd s4) \<and>
       calls (snd s4) = [ChromaGetCollection DB_PATH COLLECTION, CollectionQuery [PyStr q] 3,
                         chat_request E (PyStr q) [example_passage]] \<and>
       user_message E (PyStr q) [example_passage] =
         lit ''Context from the Ramayana:'' @ [10, 10] @ lit ''[Passage 1 '' @ [8212]
         @ lit '' Sundara Kanda, Topic: Leap to Lanka]'' @ [10]
         @ lit ''Hanuman leaps across the ocean to Lanka.'' @ [10, 10]
         @ lit ''Question: Who is Hanuman?'' @ [10, 10] @ lit ''Answer as Valmiki the sage:'')"
  proof -
    define E where "E = example_env 0 (Inr ok_response) example_results"
    define q where "q = lit ''Who is Hanuman?''"
    define a_en where "a_en = lit ''Hanuman is the son of Vayu.''"
    define s1 where "s1 = translate_query E w0 q (lang_code_of (lit ''English''))"
    define s2 where "s2 = retrieve_passages E (snd s1) (PyStr q) 3"
    define s3 where "s3 = generate_answer E (snd s2) (PyStr q) [example_passage]"
    define s4 where "s4 = translate_answer E (snd s3) a_en (lang_code_of (lit ''English''))"
    note inst = ask_proceeds_with_few_passages
                  [where E = E and w = w0 and query = q and lang = "lit ''English''"
                     and q_en = "PyStr q" and ?w1.0 = "snd s1" and ps = "[example_passage]"
                     and ?w2.0 = "snd s2"]
    have f1: "fst s1 = Inr (PyStr q)"
      unfolding s1_def E_def q_def by (simp add: run_defs)
    have f2: "fst s2 = Inr [example_passage]"
      unfolding s2_def s1_def E_def q_def by (simp add: run_defs)
    have c2: "calls (snd s2) = [ChromaGetCollection DB_PATH COLLECTION, CollectionQuery [PyStr q] 3]"
      unfolding s2_def s1_def E_def q_def by (simp add: run_defs)
    have f3: "fst s3 = Inr a_en"
      unfolding s3_def by (simp add: generate_answer_def external_eq bind_exn_pair c2)
         (simp add: E_def a_en_def run_defs)
    have c3: "calls (snd s3) = [ChromaGetCollection DB_PATH COLLECTION, CollectionQuery [PyStr q] 3,
                         chat_request E (PyStr q) [example_passage]]"
      unfolding s3_def by (simp add: generate_answer_calls c2)
    have en: "lang_code_of (lit ''English'') = lit ''en-IN''"
      by (simp add: run_defs)
    have s4_eq: "s4 = (Inr (PyStr a_en), snd s3)"
      unfolding s4_def by (simp add: translate_answer_def en)
    have h1: "translate_query E w0 q (lang_code_of (lit ''English'')) = (Inr (PyStr q), snd s1)"
      using f1 unfolding s1_def by (metis prod.collapse)
    have h2: "retrieve_passages E (snd s1) (PyStr q) 3 = (Inr [example_passage], snd s2)"
      using f2 unfolding s2_def by (metis prod.collapse)
    have h3: "generate_answer E (snd s2) (PyStr q) [example_passage] = (Inr a_en, snd s3)"
      using f3 unfolding s3_def by (metis prod.collapse)
    have h4: "translate_answer E (snd s3) a_en (lang_code_of (lit ''English''))
                = (Inr (PyStr a_en), snd s4)"
      using s4_eq unfolding s4_def by simp
    have r: "ask E w0 q (lit ''English'') =
         (Inr \<lparr>answer = PyStr a_en, passages = [example_passage], language = lit ''English'',
               query_en = Some (PyStr q), error = None\<rparr>, snd s4)"
      using inst [THEN conjunct2, THEN conjunct2, THEN conjunct1] h1 h2 h3 h4 by blast
    have um: "user_message E (PyStr q) [example_passage] =
         lit ''Context from the Ramayana:'' @ [10, 10] @ lit ''[Passage 1 '' @ [8212]
         @ lit '' Sundara Kanda, Topic: Leap to Lanka]'' @ [10]
         @ lit ''Hanuman leaps across the ocean to Lanka.'' @ [10, 10]
         @ lit ''Question: Who is Hanuman?'' @ [10, 10] @ lit ''Answer as Valmiki the sage:''"
      using inst [where ?p1.0 = example_passage, THEN conjunct2, THEN conjunct2, THEN conjunct2, THEN conjunct2, THEN conjunct1]
            inst [where i = 1 and p = example_passage, THEN conjunct2, THEN conjunct2, THEN conjunct2, THEN conjunct2, THEN conjunct2, THEN conjunct2, THEN conjunct2, THEN conjunct1] inst [THEN conjunct2, THEN conjunct2, THEN conjunct2, THEN conjunct2, THEN conjunct2, THEN conjunct2, THEN conjunct2, THEN conjunct2, THEN conjunct1]
      by (simp add: fmt_def q_def example_passage_def str_int_def str_nat.simps lit_def)
    have goal: "fst s1 = Inr (PyStr q) \<and>
       fst s2 = Inr [example_passage] \<and>
       fst s3 = Inr a_en \<and>
       fst s4 = Inr (PyStr a_en) \<and>
       ask E w0 q (lit ''English'') =
         (Inr \<lparr>answer = PyStr a_en, passages = [example_passage], language = lit ''English'',
               query_en = Some (PyStr q), error = None\<rparr>, snd s4) \<and>
       calls (snd s4) = [ChromaGetCollection DB_PATH COLLECTION, CollectionQuery [PyStr q] 3,
                         chat_request E (PyStr q) [example_passage]] \<and>
       user_message E (PyStr q) [example_passage] =
         lit ''Context from the Ramayana:'' @ [10, 10] @ lit ''[Passage 1 '' @ [8212]
         @ lit '' Sundara Kanda, Topic: Leap to Lanka]'' @ [10]
         @ lit ''Hanuman leaps across the ocean to Lanka.'' @ [10, 10]
         @ lit ''Question: Who is Hanuman?'' @ [10, 10] @ lit ''Answer as Valmiki the sage:''"
      using f1 f2 f3 r c3 um by (simp add: s4_eq)
    show ?thesis
      unfolding Let_def
      by (rule goal [unfolded s4_def s3_def s2_def s1_def E_def q_def a_en_def])
  qed
  show ?thesis
    by (rule conjI [OF b1 b2])
qed

text \<open>
  Claim C9. Whatever the query, the language argument and the services do, \<open>ask\<close>
  returns a dict whose \<open>language\<close> field is the language argument as it was passed
  in, on the success path and on both error paths alike.
\<close>

theorem ask_echoes_language:
  "\<exists>r w'. ask E w query lang = (Inr r, w') \<and> language r = lang"
  by (auto simp: ask_def ask_pipeline_eq ask_except_fields split: prod.splits sum.splits)

theorem ask_echoes_language_witness:
  "\<exists>r w'. ask (example_env 3 (Inr failing_response) example_results) w0
             (lit ''Who is Sita?'') (lit ''Sanskrit'') = (Inr r, w') \<and>
          language r = lit ''Sanskrit''"
  using ask_echoes_language
          [of "example_env 3 (Inr failing_response) example_results" w0
              "lit ''Who is Sita?''" "lit ''Sanskrit''"]
  by simp

text \<open>
  Claim C10. The text that \<open>text_to_speech\<close> submits to the Synthesis Service has at
  most 2500 characters, and a truncated text has exactly 2493.
\<close>

theorem text_to_speech_length_bound:
  "\<exists>t c m s. calls (snd (text_to_speech E w txt lang)) = calls w @ [TtsConvert t c m s] \<and>
     length t \<le> 2500 \<and> (length txt > 2500 \<longrightarrow> length t = 2493)"
  by (simp add: tts_calls tts_text_def lit_def)

theorem text_to_speech_length_bound_witness:
  "length (replicate 3000 (97::nat)) > 2500 \<and>
   (\<exists>t c m s. calls (snd (text_to_speech (example_env 1 (Inr ok_response) example_results) w0
                           (replicate 3000 97) (lit ''Hindi''))) = calls w0 @ [TtsConvert t c m s] \<and>
      length t = 2493)"
  using text_to_speech_length_bound
          [of "example_env 1 (Inr ok_response) example_results" w0 "replicate 3000 97" "lit ''Hindi''"]
  by auto

end
